theory Spec2Isabelle
  imports Complex_Main "HOL-Library.Word" "HOL-Library.Char_ord" "HOL-Library.Sublist"
begin

unbundle bit_operations_syntax

section \<open>Data model (supabase/migrations)\<close>

text \<open>
  The tables of the first migration, one record per table. Column names carry a table
  prefix (\<open>c_\<close> for \<open>complaints\<close>, \<open>ef_\<close> for \<open>evidence_files\<close>, \<open>pl_\<close> for
  \<open>public_logs\<close>, \<open>gn_\<close> for \<open>gov_notes\<close>), since several tables have an \<open>id\<close> and a
  \<open>complaint_id\<close> column. A UUID is kept as its text, a timestamp as a number, a
  \<open>DECIMAL\<close> coordinate as a rational. A JavaScript string is a list of its UTF-16 code
  units, so \<open>length\<close> is what \<open>.length\<close> and zod's \<open>min\<close>/\<open>max\<close> count. The columns
  \<open>ai_metadata\<close> and \<open>complaint_hash\<close> are left out: no statement of the sources writes
  them.
\<close>

type_synonym uuid = string
type_synonym timestamptz = nat
type_synonym byte = "8 word"
type_synonym digest = "128 word"

datatype app_role = citizen | government | admin

datatype complaint_category =
  bribery | misconduct | misuse_of_funds | negligence | infrastructure | other

datatype complaint_status = pending | in_review | verified | resolved | rejected

record complaint =
  c_id :: uuid
  c_user_id :: "uuid option"
  c_is_anonymous :: bool
  c_title :: string
  c_description :: string
  c_category :: complaint_category
  c_urgency_score :: int
  c_status :: complaint_status
  c_location :: "string option"
  c_latitude :: "rat option"
  c_longitude :: "rat option"
  c_evidence_hashes :: "string list"
  c_created_at :: timestamptz
  c_updated_at :: timestamptz
  c_tracking_code :: "string option"

record evidence_file =
  ef_id :: uuid
  ef_complaint_id :: uuid
  ef_file_url :: string
  ef_file_name :: string
  ef_file_type :: string
  ef_file_size :: nat
  ef_file_hash :: string
  ef_created_at :: timestamptz

record public_log =
  pl_id :: uuid
  pl_complaint_id :: uuid
  pl_metadata_hash :: string
  pl_action :: string
  pl_timestamp :: timestamptz

record gov_note =
  gn_id :: uuid
  gn_complaint_id :: uuid
  gn_official_id :: "uuid option"
  gn_note :: string
  gn_created_at :: timestamptz

text \<open>
  The database state. \<open>uuid_calls\<close> and \<open>random_calls\<close> count the calls of
  \<open>gen_random_uuid()\<close> and of \<open>random()\<close> made so far: the values these calls return are
  read from the environment at that position.
\<close>

record world =
  complaints :: "complaint list"
  evidence_files :: "evidence_file list"
  public_logs :: "public_log list"
  gov_notes :: "gov_note list"
  user_roles :: "(uuid \<times> app_role) list"
  uuid_calls :: nat
  random_calls :: nat

text \<open>
  What the platform supplies: the clock, the UUID generator, the MD5 digest of the text of
  the i-th \<open>random()\<close> value, SHA-256 (\<open>crypto.subtle.digest\<close>), the outcome of a storage
  upload at a path (an error message, or none) and the public URL of a path.
\<close>

record env =
  now :: timestamptz
  gen_random_uuid :: "nat \<Rightarrow> uuid"
  md5_random :: "nat \<Rightarrow> digest"
  sha256 :: "byte list \<Rightarrow> byte list"
  upload_error :: "string \<Rightarrow> string option"
  public_url :: "string \<Rightarrow> string"

text \<open>
  The caller of a statement: the database role the platform maps the request to, and
  \<open>auth.uid()\<close>. \<open>service_role\<close> is the key the edge functions use; it bypasses row
  level security.
\<close>

datatype pg_role = anon | authenticated | service_role

record session =
  role :: pg_role
  uid :: "uuid option"

datatype pg_error =
  Rls_violation string
  | Unique_violation string
  | Check_violation string
  | Foreign_key_violation string
  | Out_of_range string

fun message :: "pg_error \<Rightarrow> string" where
  "message (Rls_violation t) =
     ''new row violates row-level security policy for table '' @ t"
| "message (Unique_violation k) =
     ''duplicate key value violates unique constraint '' @ k"
| "message (Check_violation k) =
     ''new row violates check constraint '' @ k"
| "message (Foreign_key_violation k) =
     ''insert or update violates foreign key constraint '' @ k"
| "message (Out_of_range t) = ''value out of range for type '' @ t"

section \<open>Row level security\<close>

text \<open>
  A policy is the list of roles after \<open>TO\<close> (\<open>None\<close> when the policy names no role and
  so applies to every role) and the \<open>USING\<close> or \<open>WITH CHECK\<close> expression. All policies
  are permissive: a command on a row is allowed when one policy for that command and
  the caller's role accepts the row, and refused when there is none.
\<close>

type_synonym 'r policy = "pg_role list option \<times> (session \<Rightarrow> world \<Rightarrow> 'r \<Rightarrow> bool)"

definition applies_to :: "pg_role list option \<Rightarrow> session \<Rightarrow> bool" where
  "applies_to to s = (case to of None \<Rightarrow> True | Some rs \<Rightarrow> role s \<in> set rs)"

definition rls_permits :: "'r policy list \<Rightarrow> session \<Rightarrow> world \<Rightarrow> 'r \<Rightarrow> bool" where
  "rls_permits ps s w r =
     (role s = service_role \<or> list_ex (\<lambda>p. applies_to (fst p) s \<and> snd p s w r) ps)"

definition has_role :: "world \<Rightarrow> uuid option \<Rightarrow> app_role \<Rightarrow> bool" where
  "has_role w user_id r =
     (case user_id of None \<Rightarrow> False | Some u \<Rightarrow> (u, r) \<in> set (user_roles w))"

definition sql_eq :: "'a option \<Rightarrow> 'a option \<Rightarrow> bool" where
  \<comment> \<open>\<open>a = b\<close> of SQL where it is a condition: NULL on either side does not hold.\<close>
  "sql_eq a b = (case a of None \<Rightarrow> False | Some x \<Rightarrow> b = Some x)"

subsection \<open>complaints\<close>

definition Users_can_view_own_complaints :: "complaint policy" where
  "Users_can_view_own_complaints =
     (Some [authenticated], \<lambda>s w c. sql_eq (uid s) (c_user_id c))"

definition Government_can_view_all_complaints :: "complaint policy" where
  "Government_can_view_all_complaints =
     (Some [authenticated], \<lambda>s w c. has_role w (uid s) government \<or> has_role w (uid s) admin)"

definition Anyone_can_view_complaints_with_tracking_code :: "complaint policy" where
  "Anyone_can_view_complaints_with_tracking_code =
     (Some [anon], \<lambda>s w c. c_tracking_code c \<noteq> None)"

definition Anyone_can_view_all_complaints :: "complaint policy" where
  "Anyone_can_view_all_complaints = (None, \<lambda>s w c. True)"

definition complaints_select_policies :: "complaint policy list" where
  "complaints_select_policies =
     [Users_can_view_own_complaints, Government_can_view_all_complaints,
      Anyone_can_view_complaints_with_tracking_code, Anyone_can_view_all_complaints]"

definition Users_can_insert_complaints :: "complaint policy" where
  "Users_can_insert_complaints =
     (Some [authenticated], \<lambda>s w c. sql_eq (uid s) (c_user_id c))"

definition Anyone_can_insert_anonymous_complaints :: "complaint policy" where
  "Anyone_can_insert_anonymous_complaints =
     (Some [anon], \<lambda>s w c. c_is_anonymous c = True \<and> c_user_id c = None)"

definition complaints_insert_policies :: "complaint policy list" where
  "complaints_insert_policies =
     [Users_can_insert_complaints, Anyone_can_insert_anonymous_complaints]"

definition Government_can_update_complaints :: "complaint policy" where
  "Government_can_update_complaints =
     (Some [authenticated], \<lambda>s w c. has_role w (uid s) government \<or> has_role w (uid s) admin)"

definition complaints_update_policies :: "complaint policy list" where
  "complaints_update_policies = [Government_can_update_complaints]"

subsection \<open>evidence_files\<close>

text \<open>
  The \<open>EXISTS\<close> subqueries of the two insert policies read \<open>complaints\<close> as the caller
  does, that is through the select policies of \<open>complaints\<close>.
\<close>

definition Users_can_insert_evidence :: "evidence_file policy" where
  "Users_can_insert_evidence =
     (Some [authenticated], \<lambda>s w r.
        list_ex (\<lambda>c. rls_permits complaints_select_policies s w c \<and>
                     c_id c = ef_complaint_id r \<and> sql_eq (c_user_id c) (uid s))
                (complaints w))"

definition Anonymous_users_can_insert_evidence :: "evidence_file policy" where
  "Anonymous_users_can_insert_evidence =
     (Some [anon], \<lambda>s w r.
        list_ex (\<lambda>c. rls_permits complaints_select_policies s w c \<and>
                     c_id c = ef_complaint_id r \<and> c_is_anonymous c = True)
                (complaints w))"

definition evidence_files_insert_policies :: "evidence_file policy list" where
  "evidence_files_insert_policies =
     [Users_can_insert_evidence, Anonymous_users_can_insert_evidence]"

subsection \<open>public_logs\<close>

text \<open>
  Row level security is enabled on \<open>public_logs\<close>; the migrations create two policies
  for it, both \<open>FOR SELECT\<close>, and none for \<open>INSERT\<close>.
\<close>

definition Anyone_can_view_public_logs :: "public_log policy" where
  "Anyone_can_view_public_logs = (Some [authenticated], \<lambda>s w r. True)"

definition Anonymous_users_can_view_public_logs :: "public_log policy" where
  "Anonymous_users_can_view_public_logs = (Some [anon], \<lambda>s w r. True)"

definition public_logs_select_policies :: "public_log policy list" where
  "public_logs_select_policies =
     [Anyone_can_view_public_logs, Anonymous_users_can_view_public_logs]"

definition public_logs_insert_policies :: "public_log policy list" where
  "public_logs_insert_policies = []"

subsection \<open>gov_notes and storage.objects\<close>



definition Users_can_upload_evidence :: "string policy" where
  "Users_can_upload_evidence = (Some [authenticated], \<lambda>s w bucket_id. bucket_id = ''evidence'')"

definition Anonymous_users_can_upload_evidence :: "string policy" where
  "Anonymous_users_can_upload_evidence = (Some [anon], \<lambda>s w bucket_id. bucket_id = ''evidence'')"

definition storage_objects_insert_policies :: "string policy list" where
  "storage_objects_insert_policies =
     [Users_can_upload_evidence, Anonymous_users_can_upload_evidence]"

section \<open>Tracking codes (second migration)\<close>

text \<open>
  \<open>md5\<close> returns the 128-bit digest as 32 lowercase hexadecimal digits, the most
  significant first; \<open>substring(s from i for n)\<close> counts from 1.
\<close>

definition hex_digit :: "nat \<Rightarrow> char" where
  "hex_digit n = ''0123456789abcdef'' ! (n mod 16)"

definition md5_text :: "digest \<Rightarrow> string" where
  "md5_text d = map (\<lambda>i. hex_digit (unat (drop_bit (4 * (31 - i)) d AND 15))) [0..<32]"

definition substring :: "string \<Rightarrow> nat \<Rightarrow> nat \<Rightarrow> string" where
  "substring s i n = take n (drop (i - 1) s)"

definition upper_char :: "char \<Rightarrow> char" where
  "upper_char c =
     (if CHR ''a'' \<le> c \<and> c \<le> CHR ''z'' then char_of (of_char c - (32::nat)) else c)"

definition upper :: "string \<Rightarrow> string" where
  "upper s = map upper_char s"

definition candidate_code :: "(nat \<Rightarrow> digest) \<Rightarrow> nat \<Rightarrow> string" where
  "candidate_code rnd n =
     ''CW-'' @ upper (substring (md5_text (rnd n)) 1 4) @ ''-'' @
     upper (substring (md5_text (rnd (n + 1))) 1 4)"

definition code_exists :: "complaint list \<Rightarrow> string \<Rightarrow> bool" where
  "code_exists tbl code = list_ex (\<lambda>c. c_tracking_code c = Some code) tbl"

text \<open>
  \<open>generate_tracking_code\<close>: the \<open>LOOP\<close> draws two random values, builds the code and
  leaves when no row of \<open>complaints\<close> carries it. The result is the code and the number of
  \<open>random()\<close> calls made so far; \<open>None\<close> is a loop that never leaves.
\<close>

partial_function (option) generate_tracking_code ::
  "complaint list \<Rightarrow> (nat \<Rightarrow> digest) \<Rightarrow> nat \<Rightarrow> (string \<times> nat) option" where
  "generate_tracking_code tbl rnd n =
     (let code = candidate_code rnd n;
          exists = code_exists tbl code
      in if \<not> exists then Some (code, n + 2) else generate_tracking_code tbl rnd (n + 2))"

text \<open>The trigger function \<open>set_tracking_code\<close>, run \<open>BEFORE INSERT\<close> on each row.\<close>

definition set_tracking_code :: "env \<Rightarrow> world \<Rightarrow> complaint \<Rightarrow> (complaint \<times> nat) option" where
  "set_tracking_code e w new =
     (if c_is_anonymous new = True \<and> c_tracking_code new = None
      then map_option (\<lambda>(code, n). (new\<lparr>c_tracking_code := Some code\<rparr>, n))
             (generate_tracking_code (complaints w) (md5_random e) (random_calls w))
      else Some (new, random_calls w))"

text \<open>
  The pattern the Verify page tests an input against before it looks a tracking code up,
  for upper-case input: \<open>^CW-[A-Z0-9]{4}-[A-Z0-9]{4}$\<close>.
\<close>

definition is_upper_alnum :: "char \<Rightarrow> bool" where
  "is_upper_alnum c =
     ((CHR ''A'' \<le> c \<and> c \<le> CHR ''Z'') \<or> (CHR ''0'' \<le> c \<and> c \<le> CHR ''9''))"

definition isTrackingCode :: "string \<Rightarrow> bool" where
  "isTrackingCode s =
     (length s = 12 \<and> take 3 s = ''CW-'' \<and> list_all is_upper_alnum (take 4 (drop 3 s)) \<and>
      take 1 (drop 7 s) = ''-'' \<and> list_all is_upper_alnum (drop 8 s))"

section \<open>Statements\<close>

text \<open>
  \<open>INSERT INTO complaints ... RETURNING *\<close> (the client's \<open>.insert(..).select().single()\<close>)
  for the row \<open>new\<close>, defaults filled in. In the order of the database: the
  \<open>BEFORE INSERT\<close> trigger, the insert policies, the check constraint, the primary key and
  the \<open>UNIQUE\<close> constraint on \<open>tracking_code\<close>, then the select policies for the returned
  row. \<open>None\<close>: the trigger never returns.
\<close>

definition tracking_code_taken :: "complaint list \<Rightarrow> string option \<Rightarrow> bool" where
  "tracking_code_taken tbl t = (case t of None \<Rightarrow> False | Some code \<Rightarrow> code_exists tbl code)"

definition complaints_insert ::
  "env \<Rightarrow> session \<Rightarrow> complaint \<Rightarrow> world \<Rightarrow> ((pg_error + complaint) \<times> world) option" where
  "complaints_insert e s new w =
     (case set_tracking_code e w new of
        None \<Rightarrow> None
      | Some (row, n) \<Rightarrow>
          let w1 = w\<lparr>random_calls := n\<rparr> in
          Some (if \<not> rls_permits complaints_insert_policies s w row
                  then (Inl (Rls_violation ''complaints''), w1)
                else if \<not> (c_urgency_score row \<ge> 0 \<and> c_urgency_score row \<le> 10)
                  then (Inl (Check_violation ''complaints_urgency_score_check''), w1)
                else if list_ex (\<lambda>c. c_id c = c_id row) (complaints w)
                  then (Inl (Unique_violation ''complaints_pkey''), w1)
                else if tracking_code_taken (complaints w) (c_tracking_code row)
                  then (Inl (Unique_violation ''complaints_tracking_code_key''), w1)
                else if \<not> rls_permits complaints_select_policies s w row
                  then (Inl (Rls_violation ''complaints''), w1)
                else (Inr row, w1\<lparr>complaints := complaints w @ [row]\<rparr>)))"

text \<open>
  \<open>UPDATE complaints SET ... WHERE id = ..\<close>: the rows the caller may see and update are
  changed, \<open>update_updated_at_column\<close> runs on each of them, and the others are left as
  they are, with no error.
\<close>

definition update_updated_at_column :: "env \<Rightarrow> complaint \<Rightarrow> complaint" where
  "update_updated_at_column e new = new\<lparr>c_updated_at := now e\<rparr>"

definition complaints_update_by_id ::
  "env \<Rightarrow> session \<Rightarrow> (complaint \<Rightarrow> complaint) \<Rightarrow> uuid \<Rightarrow> world \<Rightarrow> world" where
  "complaints_update_by_id e s set_columns i w =
     w\<lparr>complaints :=
         map (\<lambda>c. if c_id c = i \<and> rls_permits complaints_select_policies s w c \<and>
                     rls_permits complaints_update_policies s w c
                  then update_updated_at_column e (set_columns c) else c)
             (complaints w)\<rparr>"

definition evidence_files_insert ::
  "session \<Rightarrow> evidence_file \<Rightarrow> world \<Rightarrow> pg_error option \<times> world" where
  "evidence_files_insert s new w =
     (if \<not> ef_file_size new < 2 ^ 31
        then (Some (Out_of_range ''integer''), w)
      else if \<not> rls_permits evidence_files_insert_policies s w new
        then (Some (Rls_violation ''evidence_files''), w)
      else if list_ex (\<lambda>r. ef_id r = ef_id new) (evidence_files w)
        then (Some (Unique_violation ''evidence_files_pkey''), w)
      else if \<not> list_ex (\<lambda>c. c_id c = ef_complaint_id new) (complaints w)
        then (Some (Foreign_key_violation ''evidence_files_complaint_id_fkey''), w)
      else (None, w\<lparr>evidence_files := evidence_files w @ [new]\<rparr>))"

definition public_logs_insert ::
  "session \<Rightarrow> public_log \<Rightarrow> world \<Rightarrow> pg_error option \<times> world" where
  "public_logs_insert s new w =
     (if \<not> rls_permits public_logs_insert_policies s w new
        then (Some (Rls_violation ''public_logs''), w)
      else if list_ex (\<lambda>r. pl_id r = pl_id new) (public_logs w)
        then (Some (Unique_violation ''public_logs_pkey''), w)
      else if \<not> list_ex (\<lambda>c. c_id c = pl_complaint_id new) (complaints w)
        then (Some (Foreign_key_violation ''public_logs_complaint_id_fkey''), w)
      else (None, w\<lparr>public_logs := public_logs w @ [new]\<rparr>))"


text \<open>
  \<open>supabase.storage.from(bucket).upload(path, file)\<close>: the insert policies of
  \<open>storage.objects\<close>, then the store's own outcome. The result is the error, if any.
\<close>

definition storage_upload :: "env \<Rightarrow> session \<Rightarrow> world \<Rightarrow> string \<Rightarrow> string \<Rightarrow> string option" where
  "storage_upload e s w bucket path =
     (if \<not> rls_permits storage_objects_insert_policies s w bucket
        then Some ''new row violates row-level security policy''
      else upload_error e path)"

section \<open>The submission page (src/pages/Submit.tsx)\<close>

record formData =
  title :: string
  description :: string
  category :: string
  location :: string
  latitude :: "rat option"
  longitude :: "rat option"

record validated =
  v_title :: string
  v_description :: string
  v_category :: complaint_category
  v_location :: string

record File =
  f_name :: string
  f_type :: string
  f_size :: nat
  f_bytes :: "byte list"

datatype zod_issue = Too_small string | Too_big string | Invalid_enum_value string

fun issue_message :: "zod_issue \<Rightarrow> string" where
  "issue_message (Too_small m) = m"
| "issue_message (Too_big m) = m"
| "issue_message (Invalid_enum_value received) =
     ''Invalid enum value. Expected 'bribery' | 'misconduct' | 'misuse_of_funds' | 'negligence' | 'infrastructure' | 'other', received ''
     @ [CHR 0x27] @ received @ [CHR 0x27]"

definition category_of_string :: "string \<Rightarrow> complaint_category option" where
  "category_of_string s =
     (if s = ''bribery'' then Some bribery
      else if s = ''misconduct'' then Some misconduct
      else if s = ''misuse_of_funds'' then Some misuse_of_funds
      else if s = ''negligence'' then Some negligence
      else if s = ''infrastructure'' then Some infrastructure
      else if s = ''other'' then Some other
      else None)"

text \<open>
  \<open>complaintSchema.parse\<close>: the checks of each key in the order of the schema; the
  issues are collected, and the parse throws when there is one.
\<close>

definition complaintSchema_issues :: "formData \<Rightarrow> zod_issue list" where
  "complaintSchema_issues d =
     (if length (title d) < 10 then [Too_small ''Title must be at least 10 characters''] else []) @
     (if length (title d) > 200 then [Too_big ''Title must be less than 200 characters''] else []) @
     (if length (description d) < 50
        then [Too_small ''Description must be at least 50 characters''] else []) @
     (if length (description d) > 5000
        then [Too_big ''Description must be less than 5000 characters''] else []) @
     (if category_of_string (category d) = None then [Invalid_enum_value (category d)] else []) @
     (if length (location d) < 3 then [Too_small ''Location is required''] else [])"

definition complaintSchema_parse :: "formData \<Rightarrow> zod_issue list + validated" where
  "complaintSchema_parse d =
     (case (complaintSchema_issues d, category_of_string (category d)) of
        ([], Some cat) \<Rightarrow>
          Inr \<lparr>v_title = title d, v_description = description d, v_category = cat,
               v_location = location d\<rparr>
      | (issues, _) \<Rightarrow> Inl issues)"

datatype ui = Toast_error string | Toast_success string | TrackingCodeDialog string

text \<open>
  \<open>handleFileChange\<close>: the selection of the file input (\<open>None\<close> when the input has no
  file list) against the files attached so far; the result is the new list and the toast.
\<close>

definition handleFileChange :: "File list option \<Rightarrow> File list \<Rightarrow> File list \<times> ui option" where
  "handleFileChange target_files files =
     (case target_files of
        None \<Rightarrow> (files, None)
      | Some selectedFiles \<Rightarrow>
          if length selectedFiles + length files > 5
          then (files, Some (Toast_error ''Maximum 5 files allowed''))
          else (files @ selectedFiles, None))"

text \<open>
  The state \<open>files\<close> of the page: empty at first (\<open>useState([])\<close>) and set by
  \<open>handleFileChange\<close> alone, once for each change of the file input.
\<close>

fun files_after :: "File list option list \<Rightarrow> File list \<Rightarrow> File list" where
  "files_after [] files = files"
| "files_after (target_files # later) files =
     files_after later (fst (handleFileChange target_files files))"

text \<open>\<open>calculateFileHash\<close>: each byte of the SHA-256 digest as two hexadecimal digits.\<close>

definition toString16 :: "nat \<Rightarrow> string" where
  "toString16 b = (if b < 16 then [hex_digit b] else [hex_digit (b div 16), hex_digit b])"

definition padStart :: "nat \<Rightarrow> char \<Rightarrow> string \<Rightarrow> string" where
  "padStart n c s = replicate (n - length s) c @ s"

definition calculateFileHash :: "env \<Rightarrow> File \<Rightarrow> string" where
  "calculateFileHash e f =
     concat (map (\<lambda>b. padStart 2 (CHR ''0'') (toString16 (unat b))) (sha256 e (f_bytes f)))"

text \<open>
  The browser client: the anonymous key without a session, the user's token with one.
\<close>

definition client_session :: "uuid option \<Rightarrow> session" where
  "client_session user =
     (case user of None \<Rightarrow> \<lparr>role = anon, uid = None\<rparr>
      | Some u \<Rightarrow> \<lparr>role = authenticated, uid = Some u\<rparr>)"

text \<open>
  The rows \<open>handleSubmit\<close> sends: the object of each \<open>insert\<close>, with the defaults of
  the columns it leaves out.
\<close>

definition complaint_values ::
  "env \<Rightarrow> bool \<Rightarrow> uuid option \<Rightarrow> formData \<Rightarrow> validated \<Rightarrow> world \<Rightarrow> complaint" where
  "complaint_values e isAnonymous user d v w =
     \<lparr>c_id = gen_random_uuid e (uuid_calls w),
      c_user_id = (if isAnonymous then None else user),
      c_is_anonymous = isAnonymous,
      c_title = v_title v,
      c_description = v_description v,
      c_category = v_category v,
      c_urgency_score = 5,
      c_status = pending,
      c_location = Some (v_location v),
      c_latitude = latitude d,
      c_longitude = longitude d,
      c_evidence_hashes = [],
      c_created_at = now e,
      c_updated_at = now e,
      c_tracking_code = None\<rparr>"

definition filePath :: "bool \<Rightarrow> uuid option \<Rightarrow> complaint \<Rightarrow> File \<Rightarrow> string" where
  "filePath isAnonymous user complaint f =
     (if isAnonymous then ''anonymous''
      else (case user of None \<Rightarrow> ''undefined'' | Some u \<Rightarrow> u))
     @ ''/'' @ c_id complaint @ ''/'' @ f_name f"

definition evidence_values ::
  "env \<Rightarrow> complaint \<Rightarrow> File \<Rightarrow> string \<Rightarrow> string \<Rightarrow> world \<Rightarrow> evidence_file" where
  "evidence_values e complaint f publicUrl fileHash w =
     \<lparr>ef_id = gen_random_uuid e (uuid_calls w),
      ef_complaint_id = c_id complaint,
      ef_file_url = publicUrl,
      ef_file_name = f_name f,
      ef_file_type = f_type f,
      ef_file_size = f_size f,
      ef_file_hash = fileHash,
      ef_created_at = now e\<rparr>"

definition join :: "string list \<Rightarrow> string \<Rightarrow> string" where
  "join xs sep = (case xs of [] \<Rightarrow> [] | x # rest \<Rightarrow> x @ concat (map (\<lambda>y. sep @ y) rest))"

definition audit_values :: "env \<Rightarrow> complaint \<Rightarrow> string list \<Rightarrow> world \<Rightarrow> public_log" where
  "audit_values e complaint evidenceHashes w =
     \<lparr>pl_id = gen_random_uuid e (uuid_calls w),
      pl_complaint_id = c_id complaint,
      pl_metadata_hash = join evidenceHashes '','',
      pl_action = ''complaint_created'',
      pl_timestamp = now e\<rparr>"

definition next_uuid :: "world \<Rightarrow> world" where
  "next_uuid w = w\<lparr>uuid_calls := uuid_calls w + 1\<rparr>"

text \<open>
  The loop over \<open>files\<close> of \<open>handleSubmit\<close>. A failed upload throws (\<open>Inl\<close>, the
  message); the result of the insert into \<open>evidence_files\<close> is awaited and not read.
\<close>

fun upload_files ::
  "env \<Rightarrow> bool \<Rightarrow> uuid option \<Rightarrow> complaint \<Rightarrow> File list \<Rightarrow> string list \<Rightarrow> world \<Rightarrow>
   (string + string list) \<times> world" where
  "upload_files e isAnonymous user complaint [] evidenceHashes w = (Inr evidenceHashes, w)"
| "upload_files e isAnonymous user complaint (f # files) evidenceHashes w =
     (case storage_upload e (client_session user) w ''evidence''
             (filePath isAnonymous user complaint f) of
        Some uploadError \<Rightarrow> (Inl uploadError, w)
      | None \<Rightarrow>
          upload_files e isAnonymous user complaint files
            (evidenceHashes @ [calculateFileHash e f])
            (snd (evidence_files_insert (client_session user)
                    (evidence_values e complaint f
                       (public_url e (filePath isAnonymous user complaint f))
                       (calculateFileHash e f) w)
                    (next_uuid w))))"

definition error_text :: "string \<Rightarrow> string" where
  "error_text m = (if m = [] then ''Failed to submit complaint'' else m)"

text \<open>
  What the page shows after the last statement: the dialog when the complaint is
  anonymous and the returned row has a tracking code, the toast with the first eight
  characters of the id otherwise.
\<close>

definition submitted :: "bool \<Rightarrow> complaint \<Rightarrow> ui" where
  "submitted isAnonymous complaint =
     (case c_tracking_code complaint of
        Some code \<Rightarrow>
          if isAnonymous \<and> code \<noteq> [] then TrackingCodeDialog code
          else Toast_success (''Complaint submitted! ID: '' @ take 8 (c_id complaint) @ ''...'')
      | None \<Rightarrow>
          Toast_success (''Complaint submitted! ID: '' @ take 8 (c_id complaint) @ ''...''))"

text \<open>
  \<open>handleSubmit\<close>. \<open>isAnonymous\<close> is the \<open>anonymous\<close> parameter of the URL, \<open>user\<close> the
  user of the session, if any. The result is what the page shows and the database
  afterwards; \<open>None\<close> when the insert of the complaint never returns. The results of the
  update of \<open>evidence_hashes\<close> and of the insert into \<open>public_logs\<close> are awaited and not
  read.
\<close>

definition handleSubmit ::
  "env \<Rightarrow> bool \<Rightarrow> uuid option \<Rightarrow> formData \<Rightarrow> File list \<Rightarrow> world \<Rightarrow> (ui \<times> world) option" where
  "handleSubmit e isAnonymous user d files w =
     (case complaintSchema_parse d of
        Inl issues \<Rightarrow>
          Some (Toast_error (case issues of [] \<Rightarrow> error_text [] | i # _ \<Rightarrow> issue_message i), w)
      | Inr v \<Rightarrow>
          (case complaints_insert e (client_session user)
                  (complaint_values e isAnonymous user d v w) (next_uuid w) of
             None \<Rightarrow> None
           | Some (Inl complaintError, w1) \<Rightarrow>
               Some (Toast_error (error_text (message complaintError)), w1)
           | Some (Inr complaint, w1) \<Rightarrow>
               (case upload_files e isAnonymous user complaint files [] w1 of
                  (Inl uploadError, w2) \<Rightarrow> Some (Toast_error (error_text uploadError), w2)
                | (Inr evidenceHashes, w2) \<Rightarrow>
                    let w3 = complaints_update_by_id e (client_session user)
                               (\<lambda>c. c\<lparr>c_evidence_hashes := evidenceHashes\<rparr>)
                               (c_id complaint) w2;
                        w4 = snd (public_logs_insert (client_session user)
                                    (audit_values e complaint evidenceHashes w3) (next_uuid w3))
                    in Some (submitted isAnonymous complaint, w4))))"

section \<open>The government dashboard\<close>




section \<open>The operations of the application\<close>




definition assigned_codes :: "world \<Rightarrow> string list" where
  "assigned_codes w = List.map_filter c_tracking_code (complaints w)"

text \<open>
  What identifies a complaint to its submitter: the id, the anonymity flag and the
  tracking code of each row, in the order of the table.
\<close>

definition issued :: "world \<Rightarrow> (uuid \<times> bool \<times> string option) list" where
  "issued w = map (\<lambda>c. (c_id c, c_is_anonymous c, c_tracking_code c)) (complaints w)"

definition consistent :: "world \<Rightarrow> bool" where
  "consistent w =
     (distinct (assigned_codes w) \<and> distinct (map c_id (complaints w)) \<and>
      list_all (\<lambda>c. c_is_anonymous c = (c_tracking_code c \<noteq> None)) (complaints w))"

section \<open>JSON values\<close>

datatype json =
  JNull | JBool bool | JNum rat | JStr string | JArr "json list" | JObj "(string \<times> json) list"

definition nullable :: "('a \<Rightarrow> json) \<Rightarrow> 'a option \<Rightarrow> json" where
  "nullable f x = (case x of None \<Rightarrow> JNull | Some v \<Rightarrow> f v)"

section \<open>Reading complaints\<close>

fun category_label :: "complaint_category \<Rightarrow> string" where
  "category_label bribery = ''bribery''"
| "category_label misconduct = ''misconduct''"
| "category_label misuse_of_funds = ''misuse_of_funds''"
| "category_label negligence = ''negligence''"
| "category_label infrastructure = ''infrastructure''"
| "category_label other = ''other''"

fun status_label :: "complaint_status \<Rightarrow> string" where
  "status_label pending = ''pending''"
| "status_label in_review = ''in_review''"
| "status_label verified = ''verified''"
| "status_label resolved = ''resolved''"
| "status_label rejected = ''rejected''"

text \<open>The value of a column of a \<open>complaints\<close> row, as the API returns it.\<close>

definition complaint_column :: "complaint \<Rightarrow> string \<Rightarrow> json option" where
  "complaint_column c k =
     (if k = ''id'' then Some (JStr (c_id c))
      else if k = ''user_id'' then Some (nullable JStr (c_user_id c))
      else if k = ''is_anonymous'' then Some (JBool (c_is_anonymous c))
      else if k = ''title'' then Some (JStr (c_title c))
      else if k = ''description'' then Some (JStr (c_description c))
      else if k = ''category'' then Some (JStr (category_label (c_category c)))
      else if k = ''urgency_score'' then Some (JNum (of_int (c_urgency_score c)))
      else if k = ''status'' then Some (JStr (status_label (c_status c)))
      else if k = ''location'' then Some (nullable JStr (c_location c))
      else if k = ''latitude'' then Some (nullable JNum (c_latitude c))
      else if k = ''longitude'' then Some (nullable JNum (c_longitude c))
      else if k = ''evidence_hashes'' then Some (JArr (map JStr (c_evidence_hashes c)))
      else if k = ''created_at'' then Some (JNum (of_nat (c_created_at c)))
      else if k = ''updated_at'' then Some (JNum (of_nat (c_updated_at c)))
      else if k = ''tracking_code'' then Some (nullable JStr (c_tracking_code c))
      else None)"

definition select_columns :: "string list \<Rightarrow> complaint \<Rightarrow> (string \<times> json) list" where
  "select_columns ks c = List.map_filter (\<lambda>k. map_option (Pair k) (complaint_column c k)) ks"

text \<open>
  \<open>SELECT .. FROM complaints WHERE ..\<close> as the caller \<open>s\<close>: the rows the select policies
  let the caller see and the condition keeps.
\<close>

definition complaints_select :: "session \<Rightarrow> world \<Rightarrow> (complaint \<Rightarrow> bool) \<Rightarrow> complaint list" where
  "complaints_select s w cond =
     filter (\<lambda>c. rls_permits complaints_select_policies s w c \<and> cond c) (complaints w)"

subsection \<open>The edge function verify-tracking\<close>

text \<open>
  The function builds its client with the service role key and reads nothing about its
  caller. \<open>trackingCode\<close> is the field of the request body, \<open>None\<close> when it is missing.
  \<open>maybeSingle\<close> is an error on more than one row. Notes come latest first.
\<close>

definition verify_tracking_columns :: "string list" where
  "verify_tracking_columns =
     [''id'', ''title'', ''description'', ''category'', ''status'', ''location'', ''latitude'',
      ''longitude'', ''urgency_score'', ''created_at'', ''updated_at'', ''tracking_code'']"

definition evidence_json :: "evidence_file \<Rightarrow> json" where
  "evidence_json r =
     JObj [(''id'', JStr (ef_id r)), (''file_name'', JStr (ef_file_name r)),
           (''file_url'', JStr (ef_file_url r)), (''file_type'', JStr (ef_file_type r)),
           (''created_at'', JNum (of_nat (ef_created_at r)))]"

definition note_json :: "gov_note \<Rightarrow> json" where
  "note_json r =
     JObj [(''id'', JStr (gn_id r)), (''note'', JStr (gn_note r)),
           (''created_at'', JNum (of_nat (gn_created_at r)))]"

definition failure :: "nat \<Rightarrow> string \<Rightarrow> nat \<times> json" where
  "failure code msg = (code, JObj [(''error'', JStr msg), (''success'', JBool False)])"

definition verify_tracking :: "world \<Rightarrow> string option \<Rightarrow> nat \<times> json" where
  "verify_tracking w trackingCode =
     (case trackingCode of
        None \<Rightarrow> failure 400 ''Tracking code is required''
      | Some t \<Rightarrow>
          if t = [] then failure 400 ''Tracking code is required''
          else (case complaints_select \<lparr>role = service_role, uid = None\<rparr> w
                       (\<lambda>c. c_tracking_code c = Some t) of
                  [] \<Rightarrow> failure 404 ''Complaint not found with this tracking code''
                | [c] \<Rightarrow>
                    (200, JObj [(''success'', JBool True),
                       (''complaint'', JObj (select_columns verify_tracking_columns c @
                          [(''evidence'', JArr (map evidence_json
                              (filter (\<lambda>r. ef_complaint_id r = c_id c) (evidence_files w)))),
                           (''notes'', JArr (map note_json
                              (rev (sort_key gn_created_at
                                 (filter (\<lambda>r. gn_complaint_id r = c_id c) (gov_notes w))))))]))])
                | _ \<Rightarrow> failure 500 ''Failed to fetch complaint''))"

subsection \<open>The Verify page\<close>

text \<open>
  \<open>String.prototype.trim\<close> strips white space and line terminators from both ends.
  Among the code units a \<open>char\<close> holds these are the tab, the line feed, the vertical
  tab, the form feed, the carriage return, the space and the no-break space (U+00A0);
  U+0085 is not among them. The white space above U+00FF (U+1680, U+2000 to U+200A,
  U+2028, U+2029, U+202F, U+205F, U+3000, U+FEFF) is no \<open>char\<close>: a text holding such
  a code unit is not a \<open>string\<close> here.
\<close>

definition is_space :: "char \<Rightarrow> bool" where
  "is_space c = (c = CHR '' '' \<or> c = CHR 0x09 \<or> c = CHR 0x0A \<or> c = CHR 0x0B \<or>
                 c = CHR 0x0C \<or> c = CHR 0x0D \<or> c = CHR 0xA0)"

definition trim :: "string \<Rightarrow> string" where
  "trim s = rev (dropWhile is_space (rev (dropWhile is_space s)))"

definition verify_columns :: "string list" where
  "verify_columns = [''id'', ''title'', ''category'', ''status'', ''created_at'', ''location'']"

text \<open>
  \<open>handleVerify\<close>: by tracking code when the input has the form of one (the test ignores
  case), by id otherwise, as the caller of the page. The result is the toast and the
  record shown. The column \<open>complaint_hash\<close> of the select list is left out with the
  column. An input that passes the test holds only ASCII letters, digits and hyphens,
  where \<open>toUpperCase\<close> is \<open>upper\<close>.
\<close>

definition handleVerify ::
  "uuid option \<Rightarrow> string \<Rightarrow> world \<Rightarrow> ui \<times> (string \<times> json) list option" where
  "handleVerify user complaintId w =
     (if trim complaintId = []
      then (Toast_error ''Please enter a complaint ID or tracking code'', None)
      else (case complaints_select (client_session user) w
                   (if isTrackingCode (upper (trim complaintId))
                    then (\<lambda>c. c_tracking_code c = Some (upper (trim complaintId)))
                    else (\<lambda>c. c_id c = trim complaintId)) of
              [c] \<Rightarrow> (Toast_success ''Complaint verified successfully'',
                       Some (select_columns verify_columns c))
            | _ \<Rightarrow> (Toast_error ''Complaint not found. Please check your ID or tracking code.'',
                     None)))"

section \<open>The edge function analyze-complaint\<close>

text \<open>
  The reply of the AI gateway to the \<open>fetch\<close>: its status and its body as text.
  \<open>JSON.parse\<close> (which \<open>response.json()\<close> applies to the body) is a parameter:
  \<open>None\<close> is a \<open>SyntaxError\<close>.
\<close>

record gateway_response =
  status :: nat
  body :: string

definition ok :: "gateway_response \<Rightarrow> bool" where
  "ok r = (200 \<le> status r \<and> status r \<le> 299)"

datatype thrown = Error string | SyntaxError | TypeError

text \<open>
  \<open>error.message\<close> in the outer \<open>catch\<close>. The text of a \<open>SyntaxError\<close> or a
  \<open>TypeError\<close> is the runtime's and depends on the input; the model keeps its kind.
\<close>

fun thrown_message :: "thrown \<Rightarrow> string" where
  "thrown_message (Error m) = m"
| "thrown_message SyntaxError = ''SyntaxError''"
| "thrown_message TypeError = ''TypeError''"

definition caught :: "thrown \<Rightarrow> nat \<times> json" where
  "caught t = (500, JObj [(''error'', JStr (thrown_message t))])"

fun decimal :: "nat \<Rightarrow> string" where
  "decimal n =
     (if n < 10 then [''0123456789'' ! n]
      else decimal (n div 10) @ [''0123456789'' ! (n mod 10)])"

text \<open>
  Reading a property of a value that may be \<open>undefined\<close> (\<open>None\<close>). The outer
  \<open>None\<close> is the \<open>TypeError\<close> of reading a property of \<open>undefined\<close> or \<open>null\<close>.
\<close>

fun get_prop :: "string \<Rightarrow> json option \<Rightarrow> json option option" where
  "get_prop k None = None"
| "get_prop k (Some JNull) = None"
| "get_prop k (Some (JObj kvs)) = Some (map_of kvs k)"
| "get_prop k (Some (JArr xs)) = Some (case xs of x # _ \<Rightarrow> if k = ''0'' then Some x else None | [] \<Rightarrow> None)"
| "get_prop k (Some (JStr t)) = Some (case t of c # _ \<Rightarrow> if k = ''0'' then Some (JStr [c]) else None | [] \<Rightarrow> None)"
| "get_prop k (Some (JBool b)) = Some None"
| "get_prop k (Some (JNum n)) = Some None"

definition completion_content :: "json \<Rightarrow> json option option" where
  \<comment> \<open>\<open>data.choices[0].message.content\<close>\<close>
  "completion_content data =
     Option.bind (get_prop ''choices'' (Some data)) (\<lambda>choices.
     Option.bind (get_prop ''0'' choices) (\<lambda>first.
     Option.bind (get_prop ''message'' first) (\<lambda>msg.
     get_prop ''content'' msg)))"

fun find_from :: "string \<Rightarrow> string \<Rightarrow> nat \<Rightarrow> nat option" where
  "find_from pat [] i = (if pat = [] then Some i else None)"
| "find_from pat (c # cs) i = (if prefix pat (c # cs) then Some i else find_from pat cs (Suc i))"

definition fence_open :: string where
  "fence_open = replicate 3 (CHR 0x60) @ ''json'' @ [CHR 0x0A]"

definition fence_close :: string where
  "fence_close = CHR 0x0A # replicate 3 (CHR 0x60)"

text \<open>
  The first pattern: the opening fence, the shortest text up to a closing fence. The
  result is the whole match and group 1.
\<close>

definition match_fence :: "string \<Rightarrow> (string \<times> string) option" where
  "match_fence content =
     (case find_from fence_open content 0 of
        None \<Rightarrow> None
      | Some i \<Rightarrow>
          (case find_from fence_close (drop (i + length fence_open) content) 0 of
             None \<Rightarrow> None
           | Some j \<Rightarrow>
               Some (take (length fence_open + j + length fence_close) (drop i content),
                     take j (drop (i + length fence_open) content))))"

text \<open>The second pattern: from the first opening brace to the last closing brace after it.\<close>

definition match_braces :: "string \<Rightarrow> string option" where
  "match_braces content =
     (case find_from ''{'' content 0 of
        None \<Rightarrow> None
      | Some i \<Rightarrow>
          (case rev (dropWhile (\<lambda>c. c \<noteq> CHR ''}'') (rev (drop (Suc i) content))) of
             [] \<Rightarrow> None
           | m \<Rightarrow> Some (CHR ''{'' # m)))"

definition jsonStr :: "string \<Rightarrow> string" where
  "jsonStr content =
     (case match_fence content of
        Some (whole, group1) \<Rightarrow> if group1 \<noteq> [] then group1 else whole
      | None \<Rightarrow> (case match_braces content of Some whole \<Rightarrow> whole | None \<Rightarrow> content))"

definition fallback_analysis :: "string \<Rightarrow> json" where
  "fallback_analysis content =
     JObj [(''urgency_score'', JNum 5),
           (''sentiment'', JStr ''neutral''),
           (''key_issues'', JArr [JStr ''Analysis pending'']),
           (''recommended_actions'', JArr [JStr ''Manual review required'']),
           (''patterns'', JStr ''Unable to determine patterns''),
           (''risk_level'', JStr ''medium''),
           (''summary'', JStr (take 200 content)),
           (''raw_response'', JStr content)]"

text \<open>
  The handler after the request body is read, for a \<open>fetch\<close> that returned
  \<open>response\<close>. A content that is not a string has no \<open>match\<close> and no \<open>substring\<close>: the
  \<open>TypeError\<close> of the \<open>try\<close> block is caught, the one of the \<open>catch\<close> block reaches the
  outer \<open>catch\<close>.
\<close>

definition analyze_complaint ::
  "(string \<Rightarrow> json option) \<Rightarrow> string option \<Rightarrow> gateway_response \<Rightarrow> nat \<times> json" where
  "analyze_complaint JSON_parse LOVABLE_API_KEY response =
     (if LOVABLE_API_KEY = None \<or> LOVABLE_API_KEY = Some []
        then caught (Error ''LOVABLE_API_KEY is not configured'')
      else if \<not> ok response then
        (if status response = 429
           then (429, JObj [(''error'', JStr ''Rate limit exceeded. Please try again later.'')])
         else if status response = 402
           then (402, JObj [(''error'', JStr ''Payment required. Please add credits to continue.'')])
         else caught (Error (''AI Gateway error: '' @ decimal (status response))))
      else (case JSON_parse (body response) of
              None \<Rightarrow> caught SyntaxError
            | Some data \<Rightarrow>
                (case completion_content data of
                   None \<Rightarrow> caught TypeError
                 | Some (Some (JStr content)) \<Rightarrow>
                     (200, JObj [(''analysis'',
                        (case JSON_parse (jsonStr content) of
                           Some analysis \<Rightarrow> analysis
                         | None \<Rightarrow> fallback_analysis content))])
                 | Some _ \<Rightarrow> caught TypeError)))"

section \<open>Sample data\<close>


definition sample_env :: env where
  "sample_env =
     \<lparr>now = 1000,
      gen_random_uuid = (\<lambda>n. ''id-'' @ decimal n),
      md5_random = (\<lambda>n. push_bit 112 (of_nat (n + 1))),
      sha256 = (\<lambda>bs. take 2 (bs @ [0, 0])),
      upload_error = (\<lambda>p. None),
      public_url = (\<lambda>p. ''https://storage.example/evidence/'' @ p)\<rparr>"

definition empty_world :: world where
  "empty_world =
     \<lparr>complaints = [], evidence_files = [], public_logs = [], gov_notes = [],
      user_roles = [], uuid_calls = 0, random_calls = 0\<rparr>"

definition office_world :: world where
  "office_world = empty_world\<lparr>user_roles := [(''alice'', citizen), (''odile'', government)]\<rparr>"

definition sample_form :: formData where
  "sample_form =
     \<lparr>title = ''Bribe demanded at the licence office'',
      description =
        ''An officer at the licence office asked for a cash payment to process my renewal.'',
      category = ''bribery'',
      location = ''Pune'',
      latitude = None,
      longitude = None\<rparr>"

definition sample_validated :: validated where
  "sample_validated =
     \<lparr>v_title = ''Bribe demanded at the licence office'',
      v_description =
        ''An officer at the licence office asked for a cash payment to process my renewal.'',
      v_category = bribery, v_location = ''Pune''\<rparr>"

definition anonymous_row :: complaint where
  "anonymous_row =
     \<lparr>c_id = ''id-0'', c_user_id = None, c_is_anonymous = True,
      c_title = ''Bribe demanded at the licence office'',
      c_description =
        ''An officer at the licence office asked for a cash payment to process my renewal.'',
      c_category = bribery, c_urgency_score = 5, c_status = pending,
      c_location = Some ''Pune'', c_latitude = None, c_longitude = None,
      c_evidence_hashes = [], c_created_at = 1000, c_updated_at = 1000,
      c_tracking_code = Some ''CW-0001-0002''\<rparr>"

definition alice_row :: complaint where
  "alice_row =
     \<lparr>c_id = ''id-0'', c_user_id = Some ''alice'', c_is_anonymous = False,
      c_title = ''Bribe demanded at the licence office'',
      c_description =
        ''An officer at the licence office asked for a cash payment to process my renewal.'',
      c_category = bribery, c_urgency_score = 5, c_status = pending,
      c_location = Some ''Pune'', c_latitude = None, c_longitude = None,
      c_evidence_hashes = [], c_created_at = 1000, c_updated_at = 1000,
      c_tracking_code = None\<rparr>"

definition photo_a :: File where
  "photo_a = \<lparr>f_name = ''a.png'', f_type = ''image/png'', f_size = 2, f_bytes = [1, 2]\<rparr>"

definition photo_b :: File where
  "photo_b = \<lparr>f_name = ''b.png'', f_type = ''image/png'', f_size = 2, f_bytes = [3, 255]\<rparr>"

definition evidence_a :: evidence_file where
  "evidence_a =
     \<lparr>ef_id = ''id-1'', ef_complaint_id = ''id-0'',
      ef_file_url = ''https://storage.example/evidence/alice/id-0/a.png'',
      ef_file_name = ''a.png'', ef_file_type = ''image/png'', ef_file_size = 2,
      ef_file_hash = ''0102'', ef_created_at = 1000\<rparr>"

definition evidence_b :: evidence_file where
  "evidence_b =
     \<lparr>ef_id = ''id-2'', ef_complaint_id = ''id-0'',
      ef_file_url = ''https://storage.example/evidence/alice/id-0/b.png'',
      ef_file_name = ''b.png'', ef_file_type = ''image/png'', ef_file_size = 2,
      ef_file_hash = ''03ff'', ef_created_at = 1000\<rparr>"

text \<open>The database after each of the two sample submissions.\<close>

definition anonymous_world :: world where
  "anonymous_world =
     office_world\<lparr>uuid_calls := 2, random_calls := 2, complaints := [anonymous_row]\<rparr>"

definition alice_world :: world where
  "alice_world =
     office_world\<lparr>uuid_calls := 4, complaints := [alice_row],
                   evidence_files := [evidence_a, evidence_b]\<rparr>"




text \<open>
  A file of 2 GiB, whose size does not fit the \<open>INTEGER\<close> column \<open>file_size\<close>, and
  the database after a submission of it together with \<open>photo_b\<close>.
\<close>

definition long_video :: File where
  "long_video =
     \<lparr>f_name = ''c.mp4'', f_type = ''video/mp4'', f_size = 2147483648, f_bytes = [7]\<rparr>"

definition evidence_c :: evidence_file where
  "evidence_c =
     \<lparr>ef_id = ''id-1'', ef_complaint_id = ''id-0'',
      ef_file_url = ''https://storage.example/evidence/alice/id-0/c.mp4'',
      ef_file_name = ''c.mp4'', ef_file_type = ''video/mp4'', ef_file_size = 2147483648,
      ef_file_hash = ''0700'', ef_created_at = 1000\<rparr>"

definition partial_world :: world where
  "partial_world =
     office_world\<lparr>uuid_calls := 4, complaints := [alice_row], evidence_files := [evidence_b]\<rparr>"

text \<open>A form with a title of five characters.\<close>

definition short_form :: formData where
  "short_form = sample_form\<lparr>title := ''Bribe''\<rparr>"

text \<open>
  Replies of the AI gateway: the envelope of a completion whose content is prose, the
  prose, and a page of HTML. \<open>sample_JSON_parse\<close> below is \<open>JSON.parse\<close> on the
  texts the samples hold.
\<close>

definition prose :: string where
  "prose = ''I cannot analyse this complaint.''"

definition envelope_text :: string where
  "envelope_text = ''{\"choices\":[{\"message\":{\"content\":\"I cannot analyse this complaint.\"}}]}''"

definition envelope :: json where
  "envelope = JObj [(''choices'', JArr [JObj [(''message'', JObj [(''content'', JStr prose)])]])]"

definition html_text :: string where
  "html_text = ''<html>Bad gateway</html>''"

text \<open>
  A completion whose content is an empty object inside a fenced block, and the envelope
  that carries it; in the text of the envelope the two line feeds are escaped.
\<close>

definition fenced :: string where
  "fenced = fence_open @ ''{}'' @ fence_close"

definition fenced_envelope_text :: string where
  "fenced_envelope_text =
     ''{\"choices\":[{\"message\":{\"content\":\"'' @ replicate 3 (CHR 0x60) @ ''json'' @
     [CHR 0x5C, CHR ''n''] @ ''{}'' @ [CHR 0x5C, CHR ''n''] @ replicate 3 (CHR 0x60) @
     ''\"}}]}''"

definition fenced_envelope :: json where
  "fenced_envelope =
     JObj [(''choices'', JArr [JObj [(''message'', JObj [(''content'', JStr fenced)])]])]"

definition sample_JSON_parse :: "string \<Rightarrow> json option" where
  "sample_JSON_parse t =
     (if t = envelope_text then Some envelope
      else if t = fenced_envelope_text then Some fenced_envelope
      else if t = ''{}'' then Some (JObj [])
      else None)"



section \<open>The tracking code generator\<close>

lemma hex_digit_cases:
  "hex_digit n \<in> set ''0123456789abcdef''"
proof -
  have "n mod 16 < length ''0123456789abcdef''" by simp
  then show ?thesis unfolding hex_digit_def by (rule nth_mem)
qed

lemma upper_hex_digit: "is_upper_alnum (upper_char (hex_digit n))"
proof -
  have "\<forall>c \<in> set ''0123456789abcdef''. is_upper_alnum (upper_char c)"
    by code_simp
  then show ?thesis using hex_digit_cases by blast
qed

lemma md5_text_length: "length (md5_text d) = 32"
  by (simp add: md5_text_def)

lemma md5_text_hex: "c \<in> set (md5_text d) \<Longrightarrow> \<exists>n. c = hex_digit n"
  by (auto simp: md5_text_def)

lemma quad_length: "length (upper (substring (md5_text d) 1 4)) = 4"
  by (simp add: upper_def substring_def md5_text_length)

lemma quad_alnum: "list_all is_upper_alnum (upper (substring (md5_text d) 1 4))"
proof -
  have "\<And>c. c \<in> set (substring (md5_text d) 1 4) \<Longrightarrow> is_upper_alnum (upper_char c)"
    using md5_text_hex upper_hex_digit
    by (metis in_set_takeD substring_def in_set_dropD)
  then show ?thesis by (simp add: upper_def list_all_iff)
qed

lemma candidate_code_pattern: "isTrackingCode (candidate_code rnd n)"
  using quad_alnum [of "rnd n"] quad_alnum [of "rnd (n + 1)"]
        quad_length [of "rnd n"] quad_length [of "rnd (n + 1)"]
  by (simp add: isTrackingCode_def candidate_code_def)

lemma generate_unfold:
  "generate_tracking_code tbl rnd n =
     (if \<not> code_exists tbl (candidate_code rnd n) then Some (candidate_code rnd n, n + 2)
      else generate_tracking_code tbl rnd (n + 2))"
  by (subst generate_tracking_code.simps) (simp add: Let_def)

lemma generate_first_free:
  "\<forall>j<k. code_exists tbl (candidate_code rnd (n + 2 * j)) \<Longrightarrow>
   \<not> code_exists tbl (candidate_code rnd (n + 2 * k)) \<Longrightarrow>
   generate_tracking_code tbl rnd n = Some (candidate_code rnd (n + 2 * k), n + 2 * k + 2)"
proof (induction k arbitrary: n)
  case 0
  then show ?case by (subst generate_unfold) simp
next
  case (Suc k)
  have first: "code_exists tbl (candidate_code rnd n)"
    using Suc.prems(1) [rule_format, of 0] by simp
  have rest: "\<forall>j<k. code_exists tbl (candidate_code rnd (n + 2 + 2 * j))"
  proof (intro allI impI)
    fix j assume "j < k"
    then show "code_exists tbl (candidate_code rnd (n + 2 + 2 * j))"
      using Suc.prems(1) [rule_format, of "Suc j"] by (simp add: add.assoc)
  qed
  have free: "\<not> code_exists tbl (candidate_code rnd (n + 2 + 2 * k))"
    using Suc.prems(2) by (simp add: add.assoc)
  have "generate_tracking_code tbl rnd (n + 2) =
          Some (candidate_code rnd (n + 2 + 2 * k), n + 2 + 2 * k + 2)"
    using Suc.IH [OF rest free] .
  then show ?case
    using first by (subst generate_unfold) (simp add: add.assoc)
qed

lemma generate_Some_free:
  assumes "generate_tracking_code tbl rnd n = Some r"
  shows "\<exists>k. \<not> code_exists tbl (candidate_code rnd (n + 2 * k))"
proof (rule generate_tracking_code.raw_induct
    [where P = "\<lambda>tbl rnd n r. \<exists>k. \<not> code_exists tbl (candidate_code rnd (n + 2 * k))",
     OF _ assms])
  fix f tbl rnd n and r :: "string \<times> nat"
  assume IH: "\<And>tbl rnd n r. f tbl rnd n = Some r \<Longrightarrow>
                \<exists>k. \<not> code_exists tbl (candidate_code rnd (n + 2 * k))"
    and body: "(let code = candidate_code rnd n; exists = code_exists tbl code
                in if \<not> exists then Some (code, n + 2) else f tbl rnd (n + 2)) = Some r"
  show "\<exists>k. \<not> code_exists tbl (candidate_code rnd (n + 2 * k))"
  proof (cases "code_exists tbl (candidate_code rnd n)")
    case False
    then have "\<not> code_exists tbl (candidate_code rnd (n + 2 * 0))" by simp
    then show ?thesis by blast
  next
    case True
    with body have "f tbl rnd (n + 2) = Some r" by (simp add: Let_def)
    then obtain k where "\<not> code_exists tbl (candidate_code rnd (n + 2 + 2 * k))"
      using IH by blast
    then have "\<not> code_exists tbl (candidate_code rnd (n + 2 * Suc k))"
      by (simp add: add.assoc)
    then show ?thesis by blast
  qed
qed

lemma generate_never_free:
  "\<forall>k. code_exists tbl (candidate_code rnd (n + 2 * k)) \<Longrightarrow>
   generate_tracking_code tbl rnd n = None"
  using generate_Some_free [of tbl rnd n] by (cases "generate_tracking_code tbl rnd n") auto

lemma generate_char:
  "generate_tracking_code tbl rnd n =
     (if \<exists>k. \<not> code_exists tbl (candidate_code rnd (n + 2 * k))
      then let k = (LEAST k. \<not> code_exists tbl (candidate_code rnd (n + 2 * k)))
           in Some (candidate_code rnd (n + 2 * k), n + 2 * k + 2)
      else None)"
proof (cases "\<exists>k. \<not> code_exists tbl (candidate_code rnd (n + 2 * k))")
  case False
  then show ?thesis using generate_never_free [of tbl rnd n] by simp
next
  case True
  define m where "m = (LEAST k. \<not> code_exists tbl (candidate_code rnd (n + 2 * k)))"
  have free: "\<not> code_exists tbl (candidate_code rnd (n + 2 * m))"
    unfolding m_def using True by (rule LeastI_ex)
  have before: "\<forall>j<m. code_exists tbl (candidate_code rnd (n + 2 * j))"
    unfolding m_def using not_less_Least by blast
  show ?thesis
    using generate_first_free [OF before free] True by (simp add: m_def Let_def)
qed








section \<open>The submission flow\<close>

lemma generate_Some_pattern:
  assumes "generate_tracking_code tbl rnd n = Some (code, m)"
  shows "isTrackingCode code \<and> \<not> code_exists tbl code"
proof -
  have "\<exists>k. \<not> code_exists tbl (candidate_code rnd (n + 2 * k))"
    using assms by (rule generate_Some_free)
  then obtain k where "generate_tracking_code tbl rnd n =
      Some (candidate_code rnd (n + 2 * k), n + 2 * k + 2)"
    and "\<not> code_exists tbl (candidate_code rnd (n + 2 * k))"
    using generate_char [of tbl rnd n] LeastI_ex [of "\<lambda>k. \<not> code_exists tbl (candidate_code rnd (n + 2 * k))"]
    by (auto simp: Let_def)
  with assms show ?thesis by (auto simp: candidate_code_pattern)
qed

lemma set_tracking_code_Some:
  assumes "set_tracking_code e w new = Some (row, n)"
  shows "row = new\<lparr>c_tracking_code := c_tracking_code row\<rparr> \<and>
         (if c_is_anonymous new \<and> c_tracking_code new = None
          then \<exists>code. c_tracking_code row = Some code \<and> isTrackingCode code \<and>
                 \<not> code_exists (complaints w) code
          else c_tracking_code row = c_tracking_code new)"
proof (cases "c_is_anonymous new \<and> c_tracking_code new = None")
  case True
  with assms obtain code where
    g: "generate_tracking_code (complaints w) (md5_random e) (random_calls w) = Some (code, n)"
    and r: "row = new\<lparr>c_tracking_code := Some code\<rparr>"
    by (auto simp: set_tracking_code_def)
  from generate_Some_pattern [OF g] r True show ?thesis by simp
next
  case False
  with assms have "row = new" by (auto simp: set_tracking_code_def)
  with False show ?thesis by auto
qed

lemma complaints_insert_Inl:
  assumes "complaints_insert e s new w = Some (Inl err, w1)"
  shows "complaints w1 = complaints w \<and> evidence_files w1 = evidence_files w \<and>
         public_logs w1 = public_logs w \<and> gov_notes w1 = gov_notes w \<and>
         user_roles w1 = user_roles w"
  using assms
  by (auto simp: complaints_insert_def Let_def split: option.splits if_splits)

lemma complaints_insert_Inr:
  assumes "complaints_insert e s new w = Some (Inr row, w1)"
  shows "complaints w1 = complaints w @ [row] \<and> evidence_files w1 = evidence_files w \<and>
         public_logs w1 = public_logs w \<and> gov_notes w1 = gov_notes w \<and>
         user_roles w1 = user_roles w \<and> uuid_calls w1 = uuid_calls w \<and>
         set_tracking_code e w new = Some (row, random_calls w1) \<and>
         rls_permits complaints_insert_policies s w row \<and>
         (\<forall>c \<in> set (complaints w). c_id c \<noteq> c_id row) \<and>
         \<not> tracking_code_taken (complaints w) (c_tracking_code row)"
  using assms
  by (auto simp: complaints_insert_def Let_def list_ex_iff split: option.splits if_splits)


lemma client_session_role: "role (client_session user) \<noteq> service_role"
  by (cases user) (simp_all add: client_session_def)

lemma public_logs_insert_denied:
  "public_logs_insert (client_session user) new w = (Some (Rls_violation ''public_logs''), w)"
  using client_session_role [of user]
  by (simp add: public_logs_insert_def rls_permits_def public_logs_insert_policies_def)

lemma evidence_files_insert_frame:
  "complaints (snd (evidence_files_insert s new w)) = complaints w \<and>
   public_logs (snd (evidence_files_insert s new w)) = public_logs w \<and>
   gov_notes (snd (evidence_files_insert s new w)) = gov_notes w \<and>
   user_roles (snd (evidence_files_insert s new w)) = user_roles w"
  by (simp add: evidence_files_insert_def)

lemma next_uuid_frame [simp]:
  "complaints (next_uuid w) = complaints w" "evidence_files (next_uuid w) = evidence_files w"
  "public_logs (next_uuid w) = public_logs w" "gov_notes (next_uuid w) = gov_notes w"
  "user_roles (next_uuid w) = user_roles w" "random_calls (next_uuid w) = random_calls w"
  by (simp_all add: next_uuid_def)

lemma upload_files_frame:
  "complaints (snd (upload_files e a u c fs hs w)) = complaints w \<and>
   public_logs (snd (upload_files e a u c fs hs w)) = public_logs w \<and>
   gov_notes (snd (upload_files e a u c fs hs w)) = gov_notes w \<and>
   user_roles (snd (upload_files e a u c fs hs w)) = user_roles w"
proof (induction fs arbitrary: hs w)
  case Nil
  then show ?case by simp
next
  case (Cons f fs)
  show ?case
    by (simp add: Cons.IH evidence_files_insert_frame split: option.split)
qed

lemma complaints_update_frame:
  "evidence_files (complaints_update_by_id e s g i w) = evidence_files w \<and>
   public_logs (complaints_update_by_id e s g i w) = public_logs w \<and>
   gov_notes (complaints_update_by_id e s g i w) = gov_notes w \<and>
   user_roles (complaints_update_by_id e s g i w) = user_roles w \<and>
   uuid_calls (complaints_update_by_id e s g i w) = uuid_calls w"
  by (simp add: complaints_update_by_id_def)

lemma map_other_ids:
  "\<forall>c \<in> set cs. c_id c \<noteq> i \<Longrightarrow> map (\<lambda>c. if c_id c = i \<and> P c then g c else c) cs = cs"
  by (induction cs) auto

text \<open>The four ways \<open>handleSubmit\<close> ends.\<close>

lemma handleSubmit_cases:
  assumes "handleSubmit e a u d fs w = Some (shown, w')"
  obtains
    (invalid) issues where "complaintSchema_parse d = Inl issues" "w' = w"
  | (refused) v err where "complaintSchema_parse d = Inr v"
      "complaints_insert e (client_session u) (complaint_values e a u d v w) (next_uuid w) =
         Some (Inl err, w')"
      "shown = Toast_error (error_text (message err))"
  | (upload_failed) v row w1 msg where "complaintSchema_parse d = Inr v"
      "complaints_insert e (client_session u) (complaint_values e a u d v w) (next_uuid w) =
         Some (Inr row, w1)"
      "upload_files e a u row fs [] w1 = (Inl msg, w')"
      "shown = Toast_error (error_text msg)"
  | (completed) v row w1 hashes w2 where "complaintSchema_parse d = Inr v"
      "complaints_insert e (client_session u) (complaint_values e a u d v w) (next_uuid w) =
         Some (Inr row, w1)"
      "upload_files e a u row fs [] w1 = (Inr hashes, w2)"
      "w' = snd (public_logs_insert (client_session u)
             (audit_values e row hashes
                (complaints_update_by_id e (client_session u)
                   (\<lambda>c. c\<lparr>c_evidence_hashes := hashes\<rparr>) (c_id row) w2))
             (next_uuid (complaints_update_by_id e (client_session u)
                   (\<lambda>c. c\<lparr>c_evidence_hashes := hashes\<rparr>) (c_id row) w2)))"
      "shown = submitted a row"
  using assms
  by (auto simp: handleSubmit_def Let_def split: sum.splits option.splits prod.splits)


lemma complaints_update_new_row:
  assumes "complaints w2 = cs @ [row]" "\<forall>c \<in> set cs. c_id c \<noteq> c_id row"
  shows "complaints (complaints_update_by_id e s g (c_id row) w2) =
           cs @ [if rls_permits complaints_select_policies s w2 row \<and>
                    rls_permits complaints_update_policies s w2 row
                 then update_updated_at_column e (g row) else row]"
  using assms by (simp add: complaints_update_by_id_def map_other_ids)

lemma handleSubmit_complaints:
  assumes "handleSubmit e a u d fs w = Some (shown, w')"
  shows "complaints w' = complaints w \<or>
         (\<exists>row n hashes. set_tracking_code e (next_uuid w)
                     (complaint_values e a u d (projr (complaintSchema_parse d)) w) = Some (row, n) \<and>
                (\<forall>c \<in> set (complaints w). c_id c \<noteq> c_id row) \<and>
                \<not> tracking_code_taken (complaints w) (c_tracking_code row) \<and>
                (complaints w' = complaints w @ [row] \<or>
                 complaints w' = complaints w @
                    [update_updated_at_column e (row\<lparr>c_evidence_hashes := hashes\<rparr>)]))"
  using assms
proof (cases rule: handleSubmit_cases)
  case (invalid issues)
  then show ?thesis by simp
next
  case (refused v err)
  from complaints_insert_Inl [OF refused(2)] show ?thesis by simp
next
  case (upload_failed v row w1 msg)
  from complaints_insert_Inr [OF upload_failed(2)] upload_failed(1)
  have ins: "complaints w1 = complaints w @ [row]"
    "set_tracking_code e (next_uuid w)
        (complaint_values e a u d (projr (complaintSchema_parse d)) w) = Some (row, random_calls w1)"
    "\<forall>c \<in> set (complaints w). c_id c \<noteq> c_id row"
    "\<not> tracking_code_taken (complaints w) (c_tracking_code row)"
    by simp_all
  have "complaints w' = complaints w1"
    using upload_files_frame [of e a u row fs "[]" w1] upload_failed(3) by simp
  with ins show ?thesis
    by (intro disjI2 exI [of _ row] exI [of _ "random_calls w1"] exI [of _ "[]"]) simp
next
  case (completed v row w1 hashes w2)
  from complaints_insert_Inr [OF completed(2)] completed(1)
  have ins: "complaints w1 = complaints w @ [row]"
    "set_tracking_code e (next_uuid w)
        (complaint_values e a u d (projr (complaintSchema_parse d)) w) = Some (row, random_calls w1)"
    "\<forall>c \<in> set (complaints w). c_id c \<noteq> c_id row"
    "\<not> tracking_code_taken (complaints w) (c_tracking_code row)"
    by simp_all
  have w2: "complaints w2 = complaints w @ [row]"
    using upload_files_frame [of e a u row fs "[]" w1] completed(3) ins(1) by simp
  have "complaints w' = complaints (complaints_update_by_id e (client_session u)
                   (\<lambda>c. c\<lparr>c_evidence_hashes := hashes\<rparr>) (c_id row) w2)"
    by (simp add: completed(4) public_logs_insert_denied)
  then have "complaints w' = complaints w @ [row] \<or>
         complaints w' = complaints w @
            [update_updated_at_column e (row\<lparr>c_evidence_hashes := hashes\<rparr>)]"
    using complaints_update_new_row [OF w2 ins(3)] by simp
  with ins show ?thesis
    by (intro disjI2 exI [of _ row] exI [of _ "random_calls w1"] exI [of _ hashes]) simp
qed

lemma anon_insert_permitted:
  "c_is_anonymous row \<Longrightarrow> c_user_id row = None \<Longrightarrow>
   rls_permits complaints_insert_policies (client_session None) w row"
  by (simp add: rls_permits_def complaints_insert_policies_def client_session_def
        Users_can_insert_complaints_def Anyone_can_insert_anonymous_complaints_def
        applies_to_def)

lemma select_permitted: "rls_permits complaints_select_policies s w row"
  by (simp add: rls_permits_def complaints_select_policies_def
        Anyone_can_view_all_complaints_def applies_to_def)

lemma citizen_update_denied:
  "\<not> has_role w user government \<Longrightarrow> \<not> has_role w user admin \<Longrightarrow>
   \<not> rls_permits complaints_update_policies (client_session user) w row"
  by (cases user)
     (simp_all add: rls_permits_def complaints_update_policies_def client_session_def
        Government_can_update_complaints_def applies_to_def has_role_def)

lemma user_insert_permitted:
  "c_user_id row = Some u \<Longrightarrow>
   rls_permits complaints_insert_policies (client_session (Some u)) w row"
  by (simp add: rls_permits_def complaints_insert_policies_def client_session_def
        Users_can_insert_complaints_def applies_to_def sql_eq_def)

lemma storage_upload_permitted:
  "storage_upload e (client_session user) w ''evidence'' path = upload_error e path"
  by (cases user)
     (simp_all add: storage_upload_def rls_permits_def storage_objects_insert_policies_def
        Users_can_upload_evidence_def Anonymous_users_can_upload_evidence_def applies_to_def
        client_session_def)

lemma owner_evidence_permitted:
  assumes "row \<in> set (complaints w)" "c_id row = ef_complaint_id new" "c_user_id row = Some u"
  shows "rls_permits evidence_files_insert_policies (client_session (Some u)) w new"
proof -
  have "list_ex (\<lambda>c. rls_permits complaints_select_policies (client_session (Some u)) w c \<and>
                     c_id c = ef_complaint_id new \<and>
                     sql_eq (c_user_id c) (uid (client_session (Some u))))
                (complaints w)"
    using assms by (auto simp: list_ex_iff select_permitted sql_eq_def client_session_def)
  then show ?thesis
    by (simp add: rls_permits_def evidence_files_insert_policies_def
          Users_can_insert_evidence_def applies_to_def client_session_def)
qed

lemma update_denied_noop:
  assumes "\<forall>c \<in> set (complaints w). \<not> rls_permits complaints_update_policies s w c"
  shows "complaints_update_by_id e s g i w = w"
proof -
  have "map (\<lambda>c. if c_id c = i \<and> rls_permits complaints_select_policies s w c \<and>
                     rls_permits complaints_update_policies s w c
                  then update_updated_at_column e (g c) else c) (complaints w) = complaints w"
    using assms by (induction "complaints w") (auto simp: map_idI)
  then show ?thesis by (simp add: complaints_update_by_id_def)
qed



subsection \<open>The two sample submissions\<close>

lemma sample_candidate: "candidate_code (md5_random sample_env) 0 = ''CW-0001-0002''"
  unfolding sample_env_def by code_simp

lemma sample_parse: "complaintSchema_parse sample_form = Inr sample_validated"
  by (simp add: complaintSchema_parse_def complaintSchema_issues_def category_of_string_def
        sample_form_def sample_validated_def)

lemma hash_a: "calculateFileHash sample_env photo_a = ''0102''"
  unfolding sample_env_def photo_a_def by code_simp

lemma hash_b: "calculateFileHash sample_env photo_b = ''03ff''"
  unfolding sample_env_def photo_b_def by code_simp

lemma sample_anonymous_insert:
  "complaints_insert sample_env (client_session None)
     (complaint_values sample_env True None sample_form sample_validated office_world)
     (next_uuid office_world) =
   Some (Inr anonymous_row,
         office_world\<lparr>uuid_calls := 1, random_calls := 2, complaints := [anonymous_row]\<rparr>)"
proof -
  have gen: "generate_tracking_code [] (md5_random sample_env) 0 = Some (''CW-0001-0002'', 2)"
    by (subst generate_unfold) (simp add: sample_candidate code_exists_def)
  have vals: "complaint_values sample_env True None sample_form sample_validated office_world =
        anonymous_row\<lparr>c_tracking_code := None\<rparr>"
    by (simp add: complaint_values_def anonymous_row_def sample_env_def empty_world_def
          office_world_def sample_form_def sample_validated_def)
  have trig: "set_tracking_code sample_env (next_uuid office_world)
                (anonymous_row\<lparr>c_tracking_code := None\<rparr>) = Some (anonymous_row, 2)"
    by (simp add: set_tracking_code_def next_uuid_def empty_world_def office_world_def gen
          anonymous_row_def)
  have perm: "rls_permits complaints_insert_policies (client_session None)
                (next_uuid office_world) anonymous_row"
    by (rule anon_insert_permitted) (simp_all add: anonymous_row_def)
  show ?thesis
    unfolding vals
    by (simp add: complaints_insert_def trig perm select_permitted Let_def)
       (simp add: anonymous_row_def tracking_code_taken_def code_exists_def next_uuid_def
          empty_world_def office_world_def)
qed

lemma sample_anonymous_submit:
  "handleSubmit sample_env True None sample_form [] office_world =
     Some (TrackingCodeDialog ''CW-0001-0002'', anonymous_world)"
proof -
  let ?w2 = "office_world\<lparr>uuid_calls := 1, random_calls := 2, complaints := [anonymous_row]\<rparr>"
  have "\<not> rls_permits complaints_update_policies (client_session None) ?w2 c" for c
    by (rule citizen_update_denied) (simp_all add: has_role_def)
  then have upd: "complaints_update_by_id sample_env (client_session None)
                g (c_id anonymous_row) ?w2 = ?w2" for g
    by (intro update_denied_noop) blast
  have nxt: "next_uuid ?w2 = anonymous_world"
    by (simp add: next_uuid_def anonymous_world_def office_world_def empty_world_def)
  have shown: "submitted True anonymous_row = TrackingCodeDialog ''CW-0001-0002''"
    by (simp add: submitted_def anonymous_row_def)
  show ?thesis
    by (simp only: handleSubmit_def sample_parse sum.case sample_anonymous_insert option.case
          prod.case upload_files.simps Let_def upd public_logs_insert_denied snd_conv nxt shown)
qed

lemma sample_alice_insert:
  "complaints_insert sample_env (client_session (Some ''alice''))
     (complaint_values sample_env False (Some ''alice'') sample_form sample_validated office_world)
     (next_uuid office_world) =
   Some (Inr alice_row, office_world\<lparr>uuid_calls := 1, complaints := [alice_row]\<rparr>)"
proof -
  have vals: "complaint_values sample_env False (Some ''alice'') sample_form sample_validated
                office_world = alice_row"
    by (simp add: complaint_values_def alice_row_def sample_env_def empty_world_def
          office_world_def sample_form_def sample_validated_def)
  have trig: "set_tracking_code sample_env (next_uuid office_world) alice_row =
                Some (alice_row, 0)"
    by (simp add: set_tracking_code_def next_uuid_def empty_world_def office_world_def
          alice_row_def)
  have perm: "rls_permits complaints_insert_policies (client_session (Some ''alice''))
                (next_uuid office_world) alice_row"
    by (rule user_insert_permitted) (simp add: alice_row_def)
  show ?thesis
    unfolding vals
    by (simp add: complaints_insert_def trig perm select_permitted Let_def)
       (simp add: alice_row_def tracking_code_taken_def next_uuid_def
          empty_world_def office_world_def)
qed

lemma sample_alice_uploads:
  "upload_files sample_env False (Some ''alice'') alice_row [photo_a, photo_b] []
     (office_world\<lparr>uuid_calls := 1, complaints := [alice_row]\<rparr>) =
   (Inr [''0102'', ''03ff''],
    office_world\<lparr>uuid_calls := 3, complaints := [alice_row],
                  evidence_files := [evidence_a, evidence_b]\<rparr>)"
proof -
  have va: "evidence_values sample_env alice_row photo_a
              (public_url sample_env (filePath False (Some ''alice'') alice_row photo_a)) ''0102''
              (office_world\<lparr>uuid_calls := 1, complaints := [alice_row]\<rparr>) = evidence_a"
    by (simp add: evidence_values_def evidence_a_def sample_env_def filePath_def alice_row_def
          photo_a_def office_world_def empty_world_def)
  have ia: "evidence_files_insert (client_session (Some ''alice'')) evidence_a
              (next_uuid (office_world\<lparr>uuid_calls := 1, complaints := [alice_row]\<rparr>)) =
            (None, office_world\<lparr>uuid_calls := 2, complaints := [alice_row],
                      evidence_files := [evidence_a]\<rparr>)"
    using owner_evidence_permitted [of alice_row
        "next_uuid (office_world\<lparr>uuid_calls := 1, complaints := [alice_row]\<rparr>)"
        evidence_a "''alice''"]
    by (simp add: evidence_files_insert_def)
       (simp add: evidence_a_def alice_row_def next_uuid_def office_world_def empty_world_def)
  have vb: "evidence_values sample_env alice_row photo_b
              (public_url sample_env (filePath False (Some ''alice'') alice_row photo_b)) ''03ff''
              (office_world\<lparr>uuid_calls := 2, complaints := [alice_row],
                      evidence_files := [evidence_a]\<rparr>) = evidence_b"
    by (simp add: evidence_values_def evidence_b_def sample_env_def filePath_def alice_row_def
          photo_b_def office_world_def empty_world_def)
  have ib: "evidence_files_insert (client_session (Some ''alice'')) evidence_b
              (next_uuid (office_world\<lparr>uuid_calls := 2, complaints := [alice_row],
                      evidence_files := [evidence_a]\<rparr>)) =
            (None, office_world\<lparr>uuid_calls := 3, complaints := [alice_row],
                      evidence_files := [evidence_a, evidence_b]\<rparr>)"
    using owner_evidence_permitted [of alice_row
        "next_uuid (office_world\<lparr>uuid_calls := 2, complaints := [alice_row],
                      evidence_files := [evidence_a]\<rparr>)"
        evidence_b "''alice''"]
    by (simp add: evidence_files_insert_def)
       (simp add: evidence_a_def evidence_b_def alice_row_def next_uuid_def office_world_def
          empty_world_def)
  have up: "upload_error sample_env p = None" for p
    by (simp add: sample_env_def)
  show ?thesis
    by (simp only: upload_files.simps storage_upload_permitted up option.case hash_a hash_b
          va ia vb ib snd_conv append_Nil append_Cons)
qed

lemma sample_alice_submit:
  "handleSubmit sample_env False (Some ''alice'') sample_form [photo_a, photo_b] office_world =
     Some (Toast_success ''Complaint submitted! ID: id-0...'', alice_world)"
proof -
  let ?w3 = "office_world\<lparr>uuid_calls := 3, complaints := [alice_row],
                          evidence_files := [evidence_a, evidence_b]\<rparr>"
  have "\<not> rls_permits complaints_update_policies (client_session (Some ''alice'')) ?w3 c" for c
    by (rule citizen_update_denied) (simp_all add: has_role_def office_world_def empty_world_def)
  then have upd: "complaints_update_by_id sample_env (client_session (Some ''alice''))
                g (c_id alice_row) ?w3 = ?w3" for g
    by (intro update_denied_noop) blast
  have nxt: "next_uuid ?w3 = alice_world"
    by (simp add: next_uuid_def alice_world_def office_world_def empty_world_def)
  have shown: "submitted False alice_row = Toast_success ''Complaint submitted! ID: id-0...''"
    by (simp add: submitted_def alice_row_def)
  show ?thesis
    by (simp only: handleSubmit_def sample_parse sum.case sample_alice_insert option.case
          prod.case sample_alice_uploads Let_def upd public_logs_insert_denied snd_conv nxt shown)
qed

text \<open>
  C1. A submission that adds a row to \<open>complaints\<close> adds exactly one, at the end; the row
  is anonymous exactly when the submission is; an anonymous row carries a tracking code
  of the form \<open>CW-XXXX-XXXX\<close>, a row that is not anonymous carries none.
\<close>

theorem submitted_row_tracking_code:
  assumes "handleSubmit e isAnonymous user d files w = Some (shown, w')"
    and "complaints w' \<noteq> complaints w"
  shows "\<exists>row. complaints w' = complaints w @ [row] \<and> c_is_anonymous row = isAnonymous \<and>
           (if isAnonymous
            then \<exists>code. c_tracking_code row = Some code \<and> isTrackingCode code
            else c_tracking_code row = None)"
proof -
  from handleSubmit_complaints [OF assms(1)] assms(2)
  obtain row n hashes where
    trig: "set_tracking_code e (next_uuid w)
             (complaint_values e isAnonymous user d (projr (complaintSchema_parse d)) w) =
           Some (row, n)"
    and rows: "complaints w' = complaints w @ [row] \<or>
               complaints w' = complaints w @
                 [update_updated_at_column e (row\<lparr>c_evidence_hashes := hashes\<rparr>)]"
    by blast
  let ?new = "complaint_values e isAnonymous user d (projr (complaintSchema_parse d)) w"
  have new: "c_is_anonymous ?new = isAnonymous" "c_tracking_code ?new = None"
    by (simp_all add: complaint_values_def)
  from set_tracking_code_Some [OF trig]
  have same: "row = ?new\<lparr>c_tracking_code := c_tracking_code row\<rparr>"
    and code': "if c_is_anonymous ?new \<and> c_tracking_code ?new = None
          then \<exists>code. c_tracking_code row = Some code \<and> isTrackingCode code \<and>
                 \<not> code_exists (complaints (next_uuid w)) code
          else c_tracking_code row = c_tracking_code ?new"
    by blast+
  have "c_is_anonymous row = c_is_anonymous (?new\<lparr>c_tracking_code := c_tracking_code row\<rparr>)"
    using same by simp
  then have anon: "c_is_anonymous row = isAnonymous"
    using new(1) by simp
  have code: "if isAnonymous
               then \<exists>code. c_tracking_code row = Some code \<and> isTrackingCode code
               else c_tracking_code row = None"
    using code' new by (auto split: if_splits)
  from rows show ?thesis
  proof
    assume "complaints w' = complaints w @ [row]"
    with anon code show ?thesis by blast
  next
    assume "complaints w' = complaints w @
                 [update_updated_at_column e (row\<lparr>c_evidence_hashes := hashes\<rparr>)]"
    moreover have "c_is_anonymous (update_updated_at_column e (row\<lparr>c_evidence_hashes := hashes\<rparr>))
                     = isAnonymous"
      using anon by (simp add: update_updated_at_column_def)
    moreover have "c_tracking_code (update_updated_at_column e (row\<lparr>c_evidence_hashes := hashes\<rparr>))
                     = c_tracking_code row"
      by (simp add: update_updated_at_column_def)
    ultimately show ?thesis using code by auto
  qed
qed

theorem submitted_row_tracking_code_witness:
  "(\<exists>row. complaints anonymous_world = complaints office_world @ [row] \<and>
          c_is_anonymous row = True \<and>
          (\<exists>code. c_tracking_code row = Some code \<and> isTrackingCode code)) \<and>
   (\<exists>row. complaints alice_world = complaints office_world @ [row] \<and>
          c_is_anonymous row = False \<and> c_tracking_code row = None)"
proof
  have "complaints anonymous_world \<noteq> complaints office_world"
    by (simp add: anonymous_world_def office_world_def empty_world_def)
  from submitted_row_tracking_code [OF sample_anonymous_submit this]
  show "\<exists>row. complaints anonymous_world = complaints office_world @ [row] \<and>
          c_is_anonymous row = True \<and>
          (\<exists>code. c_tracking_code row = Some code \<and> isTrackingCode code)"
    by simp
next
  have "complaints alice_world \<noteq> complaints office_world"
    by (simp add: alice_world_def office_world_def empty_world_def)
  from submitted_row_tracking_code [OF sample_alice_submit this]
  show "\<exists>row. complaints alice_world = complaints office_world @ [row] \<and>
          c_is_anonymous row = False \<and> c_tracking_code row = None"
    by simp
qed



subsection \<open>Identity of the rows\<close>


lemma anonymous_rows_issued:
  "length (filter c_is_anonymous (complaints w)) = length (filter (\<lambda>k. fst (snd k)) (issued w))"
  by (simp add: issued_def filter_map comp_def)




lemma set_map_filter:
  "y \<in> set (List.map_filter f xs) \<longleftrightarrow> (\<exists>x \<in> set xs. f x = Some y)"
  by (induction xs) (auto simp: map_filter_simps split: option.splits)






















subsection \<open>The statements whose result the flow does not read\<close>

lemma handleSubmit_public_logs:
  assumes "handleSubmit e a u d fs w = Some (shown, w')"
  shows "public_logs w' = public_logs w"
  using assms
proof (cases rule: handleSubmit_cases)
  case (invalid issues)
  then show ?thesis by simp
next
  case (refused v err)
  from complaints_insert_Inl [OF refused(2)] show ?thesis by simp
next
  case (upload_failed v row w1 msg)
  from complaints_insert_Inr [OF upload_failed(2)]
  have "public_logs w1 = public_logs w" by simp
  moreover have "public_logs w' = public_logs w1"
    using upload_files_frame [of e a u row fs "[]" w1] upload_failed(3) by simp
  ultimately show ?thesis by simp
next
  case (completed v row w1 hashes w2)
  from complaints_insert_Inr [OF completed(2)]
  have "public_logs w1 = public_logs w" by simp
  moreover have "public_logs w2 = public_logs w1"
    using upload_files_frame [of e a u row fs "[]" w1] completed(3) by simp
  ultimately show ?thesis
    by (simp add: completed(4) public_logs_insert_denied complaints_update_frame)
qed

text \<open>
  C3. The insert into \<open>public_logs\<close> is refused for every caller of the page, since the
  table has row level security and no insert policy, and the flow does not read the
  result. At the anonymous sample submission: the flow completes, the dialog shows the
  tracking code, and no audit entry exists for the complaint.
\<close>

theorem submission_leaves_no_audit_entry:
  "handleSubmit sample_env True None sample_form [] office_world =
     Some (TrackingCodeDialog ''CW-0001-0002'', anonymous_world) \<and>
   map c_id (complaints anonymous_world) = [''id-0''] \<and>
   filter (\<lambda>l. pl_complaint_id l = ''id-0'' \<and> pl_action l = ''complaint_created'')
     (public_logs anonymous_world) = []"
proof -
  have "public_logs anonymous_world = public_logs office_world"
    using sample_anonymous_submit by (rule handleSubmit_public_logs)
  then have "public_logs anonymous_world = []"
    by (simp add: office_world_def empty_world_def)
  moreover have "map c_id (complaints anonymous_world) = [''id-0'']"
    by (simp add: anonymous_world_def anonymous_row_def)
  ultimately show ?thesis using sample_anonymous_submit by simp
qed

lemma has_role_frame: "user_roles w' = user_roles w \<Longrightarrow> has_role w' u r = has_role w u r"
  by (cases u) (simp_all add: has_role_def)

lemma handleSubmit_evidence_hashes:
  assumes "handleSubmit e a u d fs w = Some (shown, w')"
    and "complaints w' \<noteq> complaints w"
    and "\<not> has_role w u government" "\<not> has_role w u admin"
  shows "\<exists>row. complaints w' = complaints w @ [row] \<and> c_evidence_hashes row = []"
  using assms(1)
proof (cases rule: handleSubmit_cases)
  case (invalid issues)
  with assms(2) show ?thesis by simp
next
  case (refused v err)
  from complaints_insert_Inl [OF refused(2)] assms(2) show ?thesis by simp
next
  case (upload_failed v row w1 msg)
  from complaints_insert_Inr [OF upload_failed(2)]
  have ins: "complaints w1 = complaints w @ [row]"
    "set_tracking_code e (next_uuid w) (complaint_values e a u d v w) = Some (row, random_calls w1)"
    by simp_all
  have "row = (complaint_values e a u d v w)\<lparr>c_tracking_code := c_tracking_code row\<rparr>"
    using set_tracking_code_Some [OF ins(2)] by blast
  then have "c_evidence_hashes row =
      c_evidence_hashes ((complaint_values e a u d v w)\<lparr>c_tracking_code := c_tracking_code row\<rparr>)"
    by simp
  then have "c_evidence_hashes row = []" by (simp add: complaint_values_def)
  moreover have "complaints w' = complaints w1"
    using upload_files_frame [of e a u row fs "[]" w1] upload_failed(3) by simp
  ultimately show ?thesis using ins(1) by simp
next
  case (completed v row w1 hashes w2)
  from complaints_insert_Inr [OF completed(2)]
  have ins: "complaints w1 = complaints w @ [row]" "user_roles w1 = user_roles w"
    "set_tracking_code e (next_uuid w) (complaint_values e a u d v w) = Some (row, random_calls w1)"
    by simp_all
  have "row = (complaint_values e a u d v w)\<lparr>c_tracking_code := c_tracking_code row\<rparr>"
    using set_tracking_code_Some [OF ins(3)] by blast
  then have "c_evidence_hashes row =
      c_evidence_hashes ((complaint_values e a u d v w)\<lparr>c_tracking_code := c_tracking_code row\<rparr>)"
    by simp
  then have empty: "c_evidence_hashes row = []" by (simp add: complaint_values_def)
  have w2: "complaints w2 = complaints w @ [row]" "user_roles w2 = user_roles w"
    using upload_files_frame [of e a u row fs "[]" w1] completed(3) ins(1,2) by simp_all
  have "\<not> rls_permits complaints_update_policies (client_session u) w2 c" for c
    using assms(3,4) has_role_frame [OF w2(2)] by (intro citizen_update_denied) simp_all
  then have "complaints_update_by_id e (client_session u) g (c_id row) w2 = w2" for g
    by (intro update_denied_noop) blast
  then have "complaints w' = complaints w2"
    by (simp add: completed(4) public_logs_insert_denied)
  with w2(1) empty show ?thesis by simp
qed

text \<open>
  C4. The update of \<open>evidence_hashes\<close> changes no row unless the submitter holds the
  government or admin role, since the only update policy of \<open>complaints\<close> is theirs, and
  the flow does not read the result. At the sample submission of a citizen with two
  files of hashes \<open>0102\<close> and \<open>03ff\<close>: both evidence rows exist, in order, and the
  complaint's \<open>evidence_hashes\<close> is empty.
\<close>

theorem citizen_submission_leaves_evidence_hashes_empty:
  "handleSubmit sample_env False (Some ''alice'') sample_form [photo_a, photo_b] office_world =
     Some (Toast_success ''Complaint submitted! ID: id-0...'', alice_world) \<and>
   map (calculateFileHash sample_env) [photo_a, photo_b] = [''0102'', ''03ff''] \<and>
   map c_id (complaints alice_world) = [''id-0''] \<and>
   map c_evidence_hashes (complaints alice_world) = [[]] \<and>
   map ef_file_hash (filter (\<lambda>r. ef_complaint_id r = ''id-0'') (evidence_files alice_world)) =
     [''0102'', ''03ff'']"
proof -
  have "map ef_file_hash (filter (\<lambda>r. ef_complaint_id r = ''id-0'') (evidence_files alice_world)) =
     [''0102'', ''03ff'']"
    by (simp add: alice_world_def evidence_a_def evidence_b_def)
  moreover have "map c_evidence_hashes (complaints alice_world) = [[]]"
    "map c_id (complaints alice_world) = [''id-0'']"
    by (simp_all add: alice_world_def alice_row_def)
  ultimately show ?thesis
    using sample_alice_submit hash_a hash_b by simp
qed

subsection \<open>Failures after the complaint is committed\<close>

text \<open>
  What holds of a failed upload: the error shown is the upload's, the complaint row is
  there, the evidence rows inserted before are there, and neither the update of
  \<open>evidence_hashes\<close> nor the audit insert is run.
\<close>

lemma upload_files_evidence_prefix:
  "prefix (evidence_files w) (evidence_files (snd (upload_files e a u c fs hs w)))"
proof (induction fs arbitrary: hs w)
  case Nil
  then show ?case by simp
next
  case (Cons f fs)
  have one: "prefix (evidence_files w) (evidence_files (snd (evidence_files_insert s new (next_uuid w))))"
    for s new
    by (simp add: evidence_files_insert_def)
  show ?case
    using Cons.IH one prefix_order.trans
    by (simp split: option.split) blast
qed

lemma upload_failure_is_surfaced:
  assumes "complaintSchema_parse d = Inr v"
    and "complaints_insert e (client_session u) (complaint_values e a u d v w) (next_uuid w) =
           Some (Inr row, w1)"
    and "upload_files e a u row fs [] w1 = (Inl msg, w2)"
  shows "handleSubmit e a u d fs w = Some (Toast_error (error_text msg), w2) \<and>
         complaints w2 = complaints w @ [row] \<and> public_logs w2 = public_logs w \<and>
         prefix (evidence_files w) (evidence_files w2)"
proof -
  from complaints_insert_Inr [OF assms(2)]
  have ins: "complaints w1 = complaints w @ [row]" "public_logs w1 = public_logs w"
    "evidence_files w1 = evidence_files w"
    by simp_all
  have "complaints w2 = complaints w1" "public_logs w2 = public_logs w1"
    using upload_files_frame [of e a u row fs "[]" w1] assms(3) by simp_all
  moreover have "prefix (evidence_files w1) (evidence_files w2)"
    using upload_files_evidence_prefix [of w1 e a u row fs "[]"] assms(3) by simp
  moreover have "handleSubmit e a u d fs w = Some (Toast_error (error_text msg), w2)"
    by (simp add: handleSubmit_def assms)
  ultimately show ?thesis using ins by simp
qed


lemma sample_hash:
  "calculateFileHash sample_env f =
     concat (map (\<lambda>b. padStart 2 (CHR ''0'') (toString16 (unat b))) (take 2 (f_bytes f @ [0, 0])))"
  by (simp add: calculateFileHash_def sample_env_def)

lemma hash_of_7:
  "concat (map (\<lambda>b. padStart 2 (CHR ''0'') (toString16 (unat b))) (take 2 ([7 :: byte] @ [0, 0])))
     = ''0700''"
  by code_simp

lemma hash_c: "calculateFileHash sample_env long_video = ''0700''"
  by (simp only: sample_hash long_video_def File.simps hash_of_7)

lemma sample_video_refused:
  "evidence_files_insert (client_session (Some ''alice'')) evidence_c
     (next_uuid (office_world\<lparr>uuid_calls := 1, complaints := [alice_row]\<rparr>)) =
   (Some (Out_of_range ''integer''), office_world\<lparr>uuid_calls := 2, complaints := [alice_row]\<rparr>)"
  by (simp add: evidence_files_insert_def evidence_c_def next_uuid_def office_world_def
        empty_world_def)

lemma sample_partial_uploads:
  "upload_files sample_env False (Some ''alice'') alice_row [long_video, photo_b] []
     (office_world\<lparr>uuid_calls := 1, complaints := [alice_row]\<rparr>) =
   (Inr [''0700'', ''03ff''],
    office_world\<lparr>uuid_calls := 3, complaints := [alice_row], evidence_files := [evidence_b]\<rparr>)"
proof -
  have vc: "evidence_values sample_env alice_row long_video
              (public_url sample_env (filePath False (Some ''alice'') alice_row long_video)) ''0700''
              (office_world\<lparr>uuid_calls := 1, complaints := [alice_row]\<rparr>) = evidence_c"
    by (simp add: evidence_values_def evidence_c_def sample_env_def filePath_def alice_row_def
          long_video_def office_world_def empty_world_def)
  have vb: "evidence_values sample_env alice_row photo_b
              (public_url sample_env (filePath False (Some ''alice'') alice_row photo_b)) ''03ff''
              (office_world\<lparr>uuid_calls := 2, complaints := [alice_row]\<rparr>) = evidence_b"
    by (simp add: evidence_values_def evidence_b_def sample_env_def filePath_def alice_row_def
          photo_b_def office_world_def empty_world_def)
  have ib: "evidence_files_insert (client_session (Some ''alice'')) evidence_b
              (next_uuid (office_world\<lparr>uuid_calls := 2, complaints := [alice_row]\<rparr>)) =
            (None, office_world\<lparr>uuid_calls := 3, complaints := [alice_row],
                      evidence_files := [evidence_b]\<rparr>)"
    using owner_evidence_permitted [of alice_row
        "next_uuid (office_world\<lparr>uuid_calls := 2, complaints := [alice_row]\<rparr>)"
        evidence_b "''alice''"]
    by (simp add: evidence_files_insert_def)
       (simp add: evidence_b_def alice_row_def next_uuid_def office_world_def empty_world_def)
  have up: "upload_error sample_env p = None" for p
    by (simp add: sample_env_def)
  show ?thesis
    by (simp only: upload_files.simps storage_upload_permitted up option.case hash_c hash_b
          vc sample_video_refused vb ib snd_conv append_Nil append_Cons)
qed

lemma sample_partial_submit:
  "handleSubmit sample_env False (Some ''alice'') sample_form [long_video, photo_b] office_world =
     Some (Toast_success ''Complaint submitted! ID: id-0...'', partial_world)"
proof -
  let ?w3 = "office_world\<lparr>uuid_calls := 3, complaints := [alice_row],
                          evidence_files := [evidence_b]\<rparr>"
  have "\<not> rls_permits complaints_update_policies (client_session (Some ''alice'')) ?w3 c" for c
    by (rule citizen_update_denied) (simp_all add: has_role_def office_world_def empty_world_def)
  then have upd: "complaints_update_by_id sample_env (client_session (Some ''alice''))
                g (c_id alice_row) ?w3 = ?w3" for g
    by (intro update_denied_noop) blast
  have nxt: "next_uuid ?w3 = partial_world"
    by (simp add: next_uuid_def partial_world_def office_world_def empty_world_def)
  have shown: "submitted False alice_row = Toast_success ''Complaint submitted! ID: id-0...''"
    by (simp add: submitted_def alice_row_def)
  show ?thesis
    by (simp only: handleSubmit_def sample_parse sum.case sample_alice_insert option.case
          prod.case sample_partial_uploads Let_def upd public_logs_insert_denied snd_conv nxt shown)
qed

text \<open>
  C6. Only the insert of the complaint and the uploads throw. At the anonymous sample
  submission the audit insert fails and the page shows the tracking code dialog. At the
  submission of a citizen with a 2 GiB video and a photo, the insert of the video's
  evidence row fails; the loop goes on to the photo, whose row is inserted, the update and
  the audit insert are attempted, and the page shows the success toast.
\<close>

theorem unread_failures_are_not_surfaced:
  "public_logs_insert (client_session None)
     (audit_values sample_env anonymous_row []
        (office_world\<lparr>uuid_calls := 1, random_calls := 2, complaints := [anonymous_row]\<rparr>))
     (next_uuid (office_world\<lparr>uuid_calls := 1, random_calls := 2,
                              complaints := [anonymous_row]\<rparr>)) =
     (Some (Rls_violation ''public_logs''), anonymous_world) \<and>
   handleSubmit sample_env True None sample_form [] office_world =
     Some (TrackingCodeDialog ''CW-0001-0002'', anonymous_world) \<and>
   evidence_files_insert (client_session (Some ''alice'')) evidence_c
     (next_uuid (office_world\<lparr>uuid_calls := 1, complaints := [alice_row]\<rparr>)) =
     (Some (Out_of_range ''integer''), office_world\<lparr>uuid_calls := 2, complaints := [alice_row]\<rparr>) \<and>
   handleSubmit sample_env False (Some ''alice'') sample_form [long_video, photo_b] office_world =
     Some (Toast_success ''Complaint submitted! ID: id-0...'', partial_world) \<and>
   evidence_files partial_world = [evidence_b]"
proof -
  have "next_uuid (office_world\<lparr>uuid_calls := 1, random_calls := 2,
                              complaints := [anonymous_row]\<rparr>) = anonymous_world"
    by (simp add: next_uuid_def anonymous_world_def office_world_def empty_world_def)
  then have "public_logs_insert (client_session None)
     (audit_values sample_env anonymous_row []
        (office_world\<lparr>uuid_calls := 1, random_calls := 2, complaints := [anonymous_row]\<rparr>))
     (next_uuid (office_world\<lparr>uuid_calls := 1, random_calls := 2,
                              complaints := [anonymous_row]\<rparr>)) =
     (Some (Rls_violation ''public_logs''), anonymous_world)"
    by (simp only: public_logs_insert_denied)
  moreover have "evidence_files partial_world = [evidence_b]"
    by (simp add: partial_world_def)
  ultimately show ?thesis
    using sample_anonymous_submit sample_video_refused sample_partial_submit by blast
qed



subsection \<open>Validation\<close>

lemma category_of_string_None:
  "category_of_string s = None \<longleftrightarrow>
     s \<notin> set [''bribery'', ''misconduct'', ''misuse_of_funds'', ''negligence'',
                ''infrastructure'', ''other'']"
  by (simp add: category_of_string_def)

lemma parse_issues:
  "complaintSchema_issues d \<noteq> [] \<Longrightarrow> complaintSchema_parse d = Inl (complaintSchema_issues d)"
  by (cases "complaintSchema_issues d")
     (simp_all add: complaintSchema_parse_def split: option.split)

text \<open>
  C7. A form whose title has fewer than 10 or more than 200 characters, whose
  description has fewer than 50 or more than 5000, whose category is not one of the six
  labels, or whose location has fewer than 3 characters is rejected: the page shows the
  message of the first issue and the database is what it was, counters included.
\<close>

theorem invalid_submission_writes_nothing:
  assumes "length (title d) < 10 \<or> length (title d) > 200 \<or>
           length (description d) < 50 \<or> length (description d) > 5000 \<or>
           category d \<notin> set [''bribery'', ''misconduct'', ''misuse_of_funds'', ''negligence'',
                                ''infrastructure'', ''other''] \<or>
           length (location d) < 3"
  shows "complaintSchema_issues d \<noteq> [] \<and>
         handleSubmit e isAnonymous user d files w =
           Some (Toast_error (issue_message (hd (complaintSchema_issues d))), w)"
proof -
  have "category_of_string (category d) = None"
    if "category d \<notin> set [''bribery'', ''misconduct'', ''misuse_of_funds'', ''negligence'',
                                ''infrastructure'', ''other'']"
    using that category_of_string_None by blast
  with assms have issues: "complaintSchema_issues d \<noteq> []"
    unfolding complaintSchema_issues_def by fastforce
  then obtain i rest where "complaintSchema_issues d = i # rest"
    by (cases "complaintSchema_issues d") auto
  with parse_issues [OF issues] issues show ?thesis
    by (simp add: handleSubmit_def)
qed

theorem invalid_submission_writes_nothing_witness:
  "handleSubmit sample_env True None short_form [photo_a] office_world =
     Some (Toast_error ''Title must be at least 10 characters'', office_world)"
proof -
  have short: "length (title short_form) < 10"
    by (simp add: short_form_def)
  have "complaintSchema_issues short_form = [Too_small ''Title must be at least 10 characters'']"
    by (simp add: complaintSchema_issues_def short_form_def sample_form_def
          category_of_string_def)
  with invalid_submission_writes_nothing [of short_form sample_env True None "[photo_a]" office_world]
    short
  show ?thesis by simp
qed

subsection \<open>The file input\<close>

lemma handleFileChange_length:
  "length files \<le> 5 \<Longrightarrow> length (fst (handleFileChange target_files files)) \<le> 5"
  by (simp add: handleFileChange_def split: option.split)

lemma files_after_length: "length files \<le> 5 \<Longrightarrow> length (files_after events files) \<le> 5"
  by (induction events arbitrary: files) (simp_all add: handleFileChange_length)

lemma upload_files_evidence_growth:
  "\<exists>new. evidence_files (snd (upload_files e a u c fs hs w)) = evidence_files w @ new \<and>
         length new \<le> length fs"
proof (induction fs arbitrary: hs w)
  case Nil
  then show ?case by simp
next
  case (Cons f fs)
  show ?case
  proof (cases "storage_upload e (client_session u) w ''evidence'' (filePath a u c f)")
    case (Some msg)
    then show ?thesis by simp
  next
    case None
    let ?w1 = "snd (evidence_files_insert (client_session u)
                 (evidence_values e c f (public_url e (filePath a u c f)) (calculateFileHash e f) w)
                 (next_uuid w))"
    have "\<exists>one. evidence_files ?w1 = evidence_files w @ one \<and> length one \<le> 1"
      by (simp add: evidence_files_insert_def)
    then obtain one where one: "evidence_files ?w1 = evidence_files w @ one" "length one \<le> 1"
      by blast
    from Cons.IH [of "hs @ [calculateFileHash e f]" ?w1]
    obtain new where new: "evidence_files (snd (upload_files e a u c fs
          (hs @ [calculateFileHash e f]) ?w1)) = evidence_files ?w1 @ new" "length new \<le> length fs"
      by blast
    have "evidence_files (snd (upload_files e a u c (f # fs) hs w)) =
            evidence_files w @ (one @ new)"
      using None one(1) new(1) by simp
    moreover have "length (one @ new) \<le> length (f # fs)"
      using one(2) new(2) by simp
    ultimately show ?thesis by blast
  qed
qed

lemma handleSubmit_evidence_growth:
  assumes "handleSubmit e a u d fs w = Some (shown, w')"
  shows "\<exists>new. evidence_files w' = evidence_files w @ new \<and> length new \<le> length fs"
  using assms
proof (cases rule: handleSubmit_cases)
  case (invalid issues)
  then show ?thesis by simp
next
  case (refused v err)
  from complaints_insert_Inl [OF refused(2)] show ?thesis by simp
next
  case (upload_failed v row w1 msg)
  from complaints_insert_Inr [OF upload_failed(2)]
  have "evidence_files w1 = evidence_files w" by simp
  with upload_files_evidence_growth [of e a u row fs "[]" w1] upload_failed(3)
  show ?thesis by simp
next
  case (completed v row w1 hashes w2)
  from complaints_insert_Inr [OF completed(2)]
  have "evidence_files w1 = evidence_files w" by simp
  moreover have "evidence_files w' = evidence_files w2"
    by (simp add: completed(4) public_logs_insert_denied complaints_update_frame)
  ultimately show ?thesis
    using upload_files_evidence_growth [of e a u row fs "[]" w1] completed(3) by simp
qed

text \<open>
  C10. A selection that would bring the attached files above five is refused whole, with
  the toast; so after any sequence of selections the page holds at most five files, and
  a submission of them adds at most five rows to \<open>evidence_files\<close>.
\<close>

theorem at_most_five_files:
  assumes "handleSubmit e isAnonymous user d (files_after events []) w = Some (shown, w')"
  shows "length (files_after events []) \<le> 5 \<and>
         (\<exists>new. evidence_files w' = evidence_files w @ new \<and> length new \<le> 5) \<and>
         (\<forall>selected files. length selected + length files > 5 \<longrightarrow>
            handleFileChange (Some selected) files =
              (files, Some (Toast_error ''Maximum 5 files allowed'')))"
proof -
  have five: "length (files_after events []) \<le> 5"
    by (rule files_after_length) simp
  from handleSubmit_evidence_growth [OF assms]
  obtain new where "evidence_files w' = evidence_files w @ new"
    "length new \<le> length (files_after events [])"
    by blast
  with five have "\<exists>new. evidence_files w' = evidence_files w @ new \<and> length new \<le> 5"
    by (intro exI [of _ new]) simp
  with five show ?thesis by (simp add: handleFileChange_def)
qed

theorem at_most_five_files_witness:
  "files_after [Some [photo_a, photo_b], Some [photo_a, photo_a, photo_a, photo_a]] [] =
     [photo_a, photo_b] \<and>
   handleFileChange (Some [photo_a, photo_a, photo_a, photo_a]) [photo_a, photo_b] =
     ([photo_a, photo_b], Some (Toast_error ''Maximum 5 files allowed'')) \<and>
   (\<exists>new. evidence_files alice_world = evidence_files office_world @ new \<and> length new \<le> 5)"
proof -
  have after: "files_after [Some [photo_a, photo_b], Some [photo_a, photo_a, photo_a, photo_a]] [] =
     [photo_a, photo_b]"
    by (simp add: handleFileChange_def)
  have "handleSubmit sample_env False (Some ''alice'') sample_form
          (files_after [Some [photo_a, photo_b], Some [photo_a, photo_a, photo_a, photo_a]] [])
          office_world =
        Some (Toast_success ''Complaint submitted! ID: id-0...'', alice_world)"
    by (simp only: after sample_alice_submit)
  from at_most_five_files [OF this] after show ?thesis
    by simp
qed



subsection \<open>Reading a complaint\<close>

lemma filter_by_code:
  assumes "c \<in> set cs" "distinct (List.map_filter c_tracking_code cs)" "c_tracking_code c = Some t"
  shows "filter (\<lambda>x. c_tracking_code x = Some t) cs = [c]"
  using assms
proof (induction cs)
  case Nil
  then show ?case by simp
next
  case (Cons x xs)
  show ?case
  proof (cases "c_tracking_code x = Some t")
    case True
    with Cons.prems(2) have "t \<notin> set (List.map_filter c_tracking_code xs)"
      by (simp add: map_filter_simps)
    then have none: "filter (\<lambda>x. c_tracking_code x = Some t) xs = []"
      by (auto simp: set_map_filter filter_empty_conv)
    have "c \<notin> set xs"
      using none Cons.prems(3) by (auto simp: filter_empty_conv)
    with Cons.prems(1) have "x = c" by simp
    with True none show ?thesis by simp
  next
    case False
    with Cons.prems have "c \<in> set xs" "distinct (List.map_filter c_tracking_code xs)"
      by (auto simp: map_filter_simps split: option.splits)
    with Cons.IH Cons.prems(3) False show ?thesis by simp
  qed
qed

lemma filter_by_id:
  assumes "c \<in> set cs" "distinct (map c_id cs)"
  shows "filter (\<lambda>x. c_id x = c_id c) cs = [c]"
  using assms
proof (induction cs)
  case Nil
  then show ?case by simp
next
  case (Cons x xs)
  show ?case
  proof (cases "x = c")
    case True
    with Cons.prems(2) have "c_id c \<notin> c_id ` set xs" by simp
    then have "\<forall>y \<in> set xs. c_id y \<noteq> c_id c" by (metis imageI)
    then have "filter (\<lambda>x. c_id x = c_id c) xs = []" by (simp add: filter_empty_conv)
    with True show ?thesis by simp
  next
    case False
    with Cons.prems have "c \<in> set xs" "distinct (map c_id xs)" "c_id x \<noteq> c_id c"
      by auto
    with Cons.IH show ?thesis by simp
  qed
qed

lemma service_select:
  "complaints_select \<lparr>role = service_role, uid = None\<rparr> w cond = filter cond (complaints w)"
  by (simp add: complaints_select_def rls_permits_def)

lemma anyone_select: "complaints_select s w cond = filter cond (complaints w)"
  by (simp add: complaints_select_def select_permitted)

lemma verify_tracking_keys:
  "map fst (select_columns verify_tracking_columns c) = verify_tracking_columns"
  by (simp add: select_columns_def verify_tracking_columns_def complaint_column_def)

lemma verify_tracking_id:
  "map_of (select_columns verify_tracking_columns c @ rest) ''id'' = Some (JStr (c_id c))"
  by (simp add: select_columns_def verify_tracking_columns_def complaint_column_def)

text \<open>
  C5 (as amended). In a consistent database, the edge function finds an anonymous
  complaint by its tracking code, whoever calls it, and the record it returns has the
  twelve selected columns, the evidence and the notes, and no \<open>user_id\<close>. A read of a
  complaint by its id returns the row to every caller: the policy "Anyone can view all
  complaints" accepts every row for every role.
\<close>

theorem lookup_by_code_and_by_id:
  assumes "c \<in> set (complaints w)" and "consistent w"
  shows "(\<forall>t. c_is_anonymous c \<and> c_tracking_code c = Some t \<and> isTrackingCode t \<longrightarrow>
            (\<exists>fields. verify_tracking w (Some t) =
                 (200, JObj [(''success'', JBool True), (''complaint'', JObj fields)]) \<and>
               map fst fields = verify_tracking_columns @ [''evidence'', ''notes''] \<and>
               ''user_id'' \<notin> set (map fst fields) \<and>
               map_of fields ''id'' = Some (JStr (c_id c)))) \<and>
         (\<forall>s. complaints_select s w (\<lambda>x. c_id x = c_id c) = [c])"
proof (intro conjI allI impI)
  fix t
  assume a: "c_is_anonymous c \<and> c_tracking_code c = Some t \<and> isTrackingCode t"
  then have nonempty: "t \<noteq> []" by (auto simp: isTrackingCode_def)
  have "distinct (List.map_filter c_tracking_code (complaints w))"
    using assms(2) by (simp add: consistent_def assigned_codes_def)
  with assms(1) a have one: "filter (\<lambda>x. c_tracking_code x = Some t) (complaints w) = [c]"
    by (intro filter_by_code) simp_all
  let ?fields = "select_columns verify_tracking_columns c @
        [(''evidence'', JArr (map evidence_json
            (filter (\<lambda>r. ef_complaint_id r = c_id c) (evidence_files w)))),
         (''notes'', JArr (map note_json
            (rev (sort_key gn_created_at
               (filter (\<lambda>r. gn_complaint_id r = c_id c) (gov_notes w))))))]"
  have "verify_tracking w (Some t) =
          (200, JObj [(''success'', JBool True), (''complaint'', JObj ?fields)])"
    using nonempty by (simp add: verify_tracking_def service_select one)
  moreover have keys: "map fst ?fields = verify_tracking_columns @ [''evidence'', ''notes'']"
    by (simp add: verify_tracking_keys)
  moreover have "''user_id'' \<notin> set (map fst ?fields)"
    unfolding keys by (simp add: verify_tracking_columns_def)
  moreover have "map_of ?fields ''id'' = Some (JStr (c_id c))"
    by (rule verify_tracking_id)
  ultimately show "\<exists>fields. verify_tracking w (Some t) =
                 (200, JObj [(''success'', JBool True), (''complaint'', JObj fields)]) \<and>
               map fst fields = verify_tracking_columns @ [''evidence'', ''notes''] \<and>
               ''user_id'' \<notin> set (map fst fields) \<and>
               map_of fields ''id'' = Some (JStr (c_id c))"
    by blast
next
  fix s
  have "distinct (map c_id (complaints w))"
    using assms(2) by (simp add: consistent_def)
  with assms(1) show "complaints_select s w (\<lambda>x. c_id x = c_id c) = [c]"
    by (simp add: anyone_select filter_by_id)
qed


lemma sample_code_pattern: "isTrackingCode ''CW-0001-0002''"
  by code_simp

theorem lookup_by_code_and_by_id_witness:
  "(\<exists>fields. verify_tracking anonymous_world (Some ''CW-0001-0002'') =
        (200, JObj [(''success'', JBool True), (''complaint'', JObj fields)]) \<and>
      map fst fields = verify_tracking_columns @ [''evidence'', ''notes''] \<and>
      ''user_id'' \<notin> set (map fst fields) \<and>
      map_of fields ''id'' = Some (JStr ''id-0'')) \<and>
   complaints_select (client_session None) anonymous_world (\<lambda>x. c_id x = ''id-0'') =
     [anonymous_row]"
proof -
  have mem: "anonymous_row \<in> set (complaints anonymous_world)"
    by (simp add: anonymous_world_def)
  have ok: "consistent anonymous_world"
    by (simp add: consistent_def assigned_codes_def anonymous_world_def anonymous_row_def)
  have row: "c_is_anonymous anonymous_row \<and> c_tracking_code anonymous_row = Some ''CW-0001-0002'' \<and>
             isTrackingCode ''CW-0001-0002''"
    by (simp add: anonymous_row_def sample_code_pattern)
  have id: "c_id anonymous_row = ''id-0''"
    by (simp add: anonymous_row_def)
  note found = lookup_by_code_and_by_id [OF mem ok, unfolded id]
  from found row have "\<exists>fields. verify_tracking anonymous_world (Some ''CW-0001-0002'') =
        (200, JObj [(''success'', JBool True), (''complaint'', JObj fields)]) \<and>
      map fst fields = verify_tracking_columns @ [''evidence'', ''notes''] \<and>
      ''user_id'' \<notin> set (map fst fields) \<and>
      map_of fields ''id'' = Some (JStr ''id-0'')"
    by blast
  moreover from found have "complaints_select (client_session None) anonymous_world
      (\<lambda>x. c_id x = ''id-0'') = [anonymous_row]"
    by blast
  ultimately show ?thesis by (rule conjI)
qed

text \<open>
  The claim as stated fails in its second half: Bob, signed in and holding no role, reads
  by its id the complaint that Alice owns, through the select and through the Verify page.
\<close>

lemma verify_input: "trim ''id-0'' = ''id-0'' \<and> \<not> isTrackingCode (upper ''id-0'')"
  by code_simp

theorem read_by_id_counterexample:
  "c_user_id alice_row = Some ''alice'' \<and> c_is_anonymous alice_row = False \<and>
   has_role alice_world (Some ''bob'') government = False \<and>
   has_role alice_world (Some ''bob'') admin = False \<and>
   complaints_select (client_session (Some ''bob'')) alice_world (\<lambda>c. c_id c = ''id-0'') =
     [alice_row] \<and>
   handleVerify (Some ''bob'') ''id-0'' alice_world =
     (Toast_success ''Complaint verified successfully'',
      Some (select_columns verify_columns alice_row))"
proof -
  have sel: "complaints_select (client_session (Some ''bob'')) alice_world (\<lambda>c. c_id c = ''id-0'') =
     [alice_row]"
    by (simp add: anyone_select alice_world_def alice_row_def)
  have "handleVerify (Some ''bob'') ''id-0'' alice_world =
     (Toast_success ''Complaint verified successfully'',
      Some (select_columns verify_columns alice_row))"
    by (simp add: handleVerify_def verify_input sel)
  with sel show ?thesis
    by (simp add: alice_row_def has_role_def alice_world_def office_world_def empty_world_def)
qed



subsection \<open>The analysis call\<close>

lemma not_ok_429: "status r = 429 \<Longrightarrow> \<not> ok r"
  by (simp add: ok_def)

lemma not_ok_402: "status r = 402 \<Longrightarrow> \<not> ok r"
  by (simp add: ok_def)

text \<open>
  C8 (as amended). With the API key configured: a reply of status 429 gives the rate
  limit message and a reply of status 402 the payment message, each under its own
  status. For a 2xx reply whose body is JSON and carries a completion text, the handler
  parses \<open>jsonStr\<close> of that text: the inside of the first fenced block when there is
  one (the whole block when the inside is empty), otherwise the span from the first
  opening brace to the last closing brace when there is one, otherwise the whole text.
  When that does not parse as JSON the answer is status 200 with the fallback analysis,
  built from the completion text; when it parses, status 200 with the value parsed. A
  2xx reply whose body itself is not JSON gives status 500 with the message of the error.
\<close>

theorem analyze_complaint_outcomes:
  assumes "key \<noteq> []"
  shows "(status r = 429 \<longrightarrow>
            analyze_complaint JSON_parse (Some key) r =
              (429, JObj [(''error'', JStr ''Rate limit exceeded. Please try again later.'')])) \<and>
         (status r = 402 \<longrightarrow>
            analyze_complaint JSON_parse (Some key) r =
              (402, JObj [(''error'', JStr ''Payment required. Please add credits to continue.'')])) \<and>
         (ok r \<and> JSON_parse (body r) = Some data \<and>
          completion_content data = Some (Some (JStr content)) \<and>
          JSON_parse (jsonStr content) = None \<longrightarrow>
            analyze_complaint JSON_parse (Some key) r =
              (200, JObj [(''analysis'', fallback_analysis content)])) \<and>
         (ok r \<and> JSON_parse (body r) = Some data \<and>
          completion_content data = Some (Some (JStr content)) \<and>
          JSON_parse (jsonStr content) = Some analysis \<longrightarrow>
            analyze_complaint JSON_parse (Some key) r = (200, JObj [(''analysis'', analysis)])) \<and>
         (ok r \<and> JSON_parse (body r) = None \<longrightarrow>
            analyze_complaint JSON_parse (Some key) r =
              (500, JObj [(''error'', JStr (thrown_message SyntaxError))]))"
  using assms
  by (auto simp: analyze_complaint_def not_ok_429 not_ok_402 caught_def)

text \<open>What \<open>jsonStr\<close> extracts, case by case.\<close>

lemma jsonStr_fence:
  "match_fence content = Some (whole, inside) \<Longrightarrow>
   jsonStr content = (if inside \<noteq> [] then inside else whole)"
  by (simp add: jsonStr_def)

lemma jsonStr_braces:
  "match_fence content = None \<Longrightarrow> match_braces content = Some whole \<Longrightarrow>
   jsonStr content = whole"
  by (simp add: jsonStr_def)

lemma jsonStr_plain:
  "match_fence content = None \<Longrightarrow> match_braces content = None \<Longrightarrow> jsonStr content = content"
  by (simp add: jsonStr_def)

lemma sample_content: "completion_content envelope = Some (Some (JStr prose))"
  by (simp add: completion_content_def envelope_def)

lemma fenced_content: "completion_content fenced_envelope = Some (Some (JStr fenced))"
  by (simp add: completion_content_def fenced_envelope_def)

lemma sample_jsonStr: "jsonStr prose = prose"
  by code_simp

lemma fenced_jsonStr: "jsonStr fenced = ''{}''"
  by code_simp

lemma sample_texts:
  "prose \<noteq> envelope_text \<and> html_text \<noteq> envelope_text \<and>
   prose \<noteq> fenced_envelope_text \<and> html_text \<noteq> fenced_envelope_text \<and>
   fenced \<noteq> envelope_text \<and> fenced \<noteq> fenced_envelope_text \<and>
   fenced_envelope_text \<noteq> envelope_text \<and>
   prose \<noteq> ''{}'' \<and> html_text \<noteq> ''{}'' \<and> fenced \<noteq> ''{}'' \<and>
   ''{}'' \<noteq> envelope_text \<and> ''{}'' \<noteq> fenced_envelope_text"
  by code_simp

lemma sample_parses:
  "sample_JSON_parse envelope_text = Some envelope \<and>
   sample_JSON_parse fenced_envelope_text = Some fenced_envelope \<and>
   sample_JSON_parse ''{}'' = Some (JObj []) \<and>
   sample_JSON_parse prose = None \<and> sample_JSON_parse html_text = None \<and>
   sample_JSON_parse fenced = None"
  using sample_texts by (simp add: sample_JSON_parse_def)

theorem analyze_complaint_outcomes_witness:
  "analyze_complaint sample_JSON_parse (Some ''key'') \<lparr>status = 429, body = html_text\<rparr> =
     (429, JObj [(''error'', JStr ''Rate limit exceeded. Please try again later.'')]) \<and>
   analyze_complaint sample_JSON_parse (Some ''key'') \<lparr>status = 402, body = html_text\<rparr> =
     (402, JObj [(''error'', JStr ''Payment required. Please add credits to continue.'')]) \<and>
   analyze_complaint sample_JSON_parse (Some ''key'') \<lparr>status = 200, body = envelope_text\<rparr> =
     (200, JObj [(''analysis'', fallback_analysis prose)]) \<and>
   analyze_complaint sample_JSON_parse (Some ''key'')
       \<lparr>status = 200, body = fenced_envelope_text\<rparr> =
     (200, JObj [(''analysis'', JObj [])]) \<and>
   analyze_complaint sample_JSON_parse (Some ''key'') \<lparr>status = 200, body = html_text\<rparr> =
     (500, JObj [(''error'', JStr ''SyntaxError'')])"
proof (intro conjI)
  have key: "''key'' \<noteq> []" by simp
  show "analyze_complaint sample_JSON_parse (Some ''key'') \<lparr>status = 429, body = html_text\<rparr> =
     (429, JObj [(''error'', JStr ''Rate limit exceeded. Please try again later.'')])"
    using analyze_complaint_outcomes [OF key, of "\<lparr>status = 429, body = html_text\<rparr>"]
    by simp
  show "analyze_complaint sample_JSON_parse (Some ''key'') \<lparr>status = 402, body = html_text\<rparr> =
     (402, JObj [(''error'', JStr ''Payment required. Please add credits to continue.'')])"
    using analyze_complaint_outcomes [OF key, of "\<lparr>status = 402, body = html_text\<rparr>"]
    by simp
  have "ok \<lparr>status = 200, body = envelope_text\<rparr> \<and>
        sample_JSON_parse (body \<lparr>status = 200, body = envelope_text\<rparr>) = Some envelope \<and>
        completion_content envelope = Some (Some (JStr prose)) \<and>
        sample_JSON_parse (jsonStr prose) = None"
    using sample_parses by (simp add: ok_def sample_content sample_jsonStr)
  with analyze_complaint_outcomes [OF key, of "\<lparr>status = 200, body = envelope_text\<rparr>"
      sample_JSON_parse envelope prose]
  show "analyze_complaint sample_JSON_parse (Some ''key'') \<lparr>status = 200, body = envelope_text\<rparr> =
     (200, JObj [(''analysis'', fallback_analysis prose)])"
    by blast
  have "ok \<lparr>status = 200, body = fenced_envelope_text\<rparr> \<and>
        sample_JSON_parse (body \<lparr>status = 200, body = fenced_envelope_text\<rparr>) =
          Some fenced_envelope \<and>
        completion_content fenced_envelope = Some (Some (JStr fenced)) \<and>
        sample_JSON_parse (jsonStr fenced) = Some (JObj [])"
    using sample_parses by (simp add: ok_def fenced_content fenced_jsonStr)
  with analyze_complaint_outcomes [OF key, of "\<lparr>status = 200, body = fenced_envelope_text\<rparr>"
      sample_JSON_parse fenced_envelope fenced "JObj []"]
  show "analyze_complaint sample_JSON_parse (Some ''key'')
       \<lparr>status = 200, body = fenced_envelope_text\<rparr> =
     (200, JObj [(''analysis'', JObj [])])"
    by blast
  have "ok \<lparr>status = 200, body = html_text\<rparr> \<and>
        sample_JSON_parse (body \<lparr>status = 200, body = html_text\<rparr>) = None"
    using sample_parses by (simp add: ok_def)
  with analyze_complaint_outcomes [OF key, of "\<lparr>status = 200, body = html_text\<rparr>"
      sample_JSON_parse]
  show "analyze_complaint sample_JSON_parse (Some ''key'') \<lparr>status = 200, body = html_text\<rparr> =
     (500, JObj [(''error'', JStr ''SyntaxError'')])"
    by simp
qed

text \<open>
  The claim as stated fails, on either reading of "body". A 2xx reply whose body is a
  page of HTML, not JSON, gives status 500 with an error, not the fallback analysis. And
  a 2xx reply whose completion text is a fenced block around an empty object, a text
  that is not JSON, gives the empty object as the analysis, not the fallback.
\<close>

theorem unparseable_body_counterexample:
  "ok \<lparr>status = 200, body = html_text\<rparr> \<and>
   sample_JSON_parse html_text = None \<and>
   analyze_complaint sample_JSON_parse (Some ''key'') \<lparr>status = 200, body = html_text\<rparr> =
     (500, JObj [(''error'', JStr ''SyntaxError'')]) \<and>
   analyze_complaint sample_JSON_parse (Some ''key'') \<lparr>status = 200, body = html_text\<rparr> \<noteq>
     (200, JObj [(''analysis'', fallback_analysis html_text)]) \<and>
   ok \<lparr>status = 200, body = fenced_envelope_text\<rparr> \<and>
   completion_content fenced_envelope = Some (Some (JStr fenced)) \<and>
   sample_JSON_parse fenced = None \<and>
   analyze_complaint sample_JSON_parse (Some ''key'')
       \<lparr>status = 200, body = fenced_envelope_text\<rparr> =
     (200, JObj [(''analysis'', JObj [])]) \<and>
   analyze_complaint sample_JSON_parse (Some ''key'')
       \<lparr>status = 200, body = fenced_envelope_text\<rparr> \<noteq>
     (200, JObj [(''analysis'', fallback_analysis fenced)])"
  using sample_parses
  by (simp add: ok_def analyze_complaint_def caught_def fenced_content fenced_jsonStr
        fallback_analysis_def)

end
